theory Spec2Isabelle
  imports Complex_Main "HOL-Library.Multiset" "HOL-Library.List_Lexorder" "HOL-Library.Char_ord"
begin

section \<open>paasta_tools/marathon_serviceinit.py\<close>

text \<open>
  A shallow embedding of the service-instance status and scaling commands of
  \<^verbatim>\<open>marathon_serviceinit.py\<close>. Python's unbounded integers are \<^typ>\<open>int\<close>, its byte strings
  are \<^typ>\<open>string\<close>, points in time are \<^typ>\<open>rat\<close> (seconds since the epoch); the floats of
  the CPU metric stay abstract, a type with the operations that the source applies to them.
  Exceptions are values of the type
  \<open>exn\<close>; a function that can raise returns \<open>exn + 'a\<close> with \<open>Inl\<close> for the exception that
  leaves it. What the collaborators (Marathon client, Mesos, SmartStack, the configuration
  loader) answer is data of the \<open>world\<close> record; their own failures are outside this file.
\<close>

subsection \<open>Coloured text and number formatting\<close>

text \<open>
  \<^verbatim>\<open>PaastaColors\<close> wraps a string in terminal escape codes. The codes themselves belong to
  \<^verbatim>\<open>paasta_tools.utils\<close>; here a coloured string is a list of pieces, each a raw string or a
  coloured span, so that a colour is recorded and never confused with the characters.
\<close>

datatype colour = Red | Green | Yellow | Cyan | Grey | Bold | Default

datatype rich = Raw string | Col colour "rich list"

type_synonym ctext = "rich list"

definition paint :: "colour \<Rightarrow> string \<Rightarrow> rich" where
  "paint c s = Col c [Raw s]"

text \<open>\<^verbatim>\<open>PaastaColors.color_text(color, text)\<close> on a string that already has coloured spans.\<close>

definition color_text :: "colour \<Rightarrow> ctext \<Rightarrow> ctext" where
  "color_text c t = [Col c t]"

text \<open>The characters of a coloured string, as \<^verbatim>\<open>remove_ansi_escape_sequences\<close> leaves them.\<close>

primrec plain :: "rich \<Rightarrow> string" where
  "plain (Raw s) = s"
| "plain (Col c rs) = concat (map plain rs)"

definition remove_ansi_escape_sequences :: "ctext \<Rightarrow> ctext" where
  "remove_ansi_escape_sequences t = [Raw (concat (map plain t))]"

text \<open>Python's \<^verbatim>\<open>"%d" % n\<close> for an integer: decimal digits, a minus sign when negative.\<close>

definition digit :: "nat \<Rightarrow> char" where
  "digit n = ''0123456789'' ! (n mod 10)"

function str_nat :: "nat \<Rightarrow> string" where
  "str_nat n = (if n < 10 then [digit n] else str_nat (n div 10) @ [digit n])"
  by pat_completeness auto
termination
  by (relation "measure (\<lambda>n. n)") auto

declare str_nat.simps [simp del]

definition fmt_d :: "int \<Rightarrow> string" where
  "fmt_d i = (if i < 0 then CHR ''-'' # str_nat (nat (- i)) else str_nat (nat i))"

text \<open>\<^verbatim>\<open>"(%d/%d)" % (a, b)\<close>\<close>

definition fmt_count :: "int \<Rightarrow> int \<Rightarrow> string" where
  "fmt_count a b = ''('' @ fmt_d a @ ''/'' @ fmt_d b @ '')''"

text \<open>\<^verbatim>\<open>"\n".join(lines)\<close>\<close>

fun join_lines :: "ctext list \<Rightarrow> ctext" where
  "join_lines [] = []"
| "join_lines [l] = l"
| "join_lines (l # ls) = l @ Raw [CHR 0x0A] # join_lines ls"

subsection \<open>Exceptions\<close>

datatype exn =
    AttributeError
  | SlaveDoesNotExist
  | TimeoutError
  | IndexError
  | ZeroDivisionError
  | NoDockerImageError
  | NotImplementedError string

subsection \<open>Data of the collaborators\<close>

text \<open>A Marathon task, as \<^verbatim>\<open>client.get_app(appid).tasks\<close> lists it.\<close>

record marathon_task =
  mt_id :: string
  mt_host :: "string option"
  mt_ports :: "int list"
  mt_staged_at :: rat

text \<open>
  A Marathon app: \<^verbatim>\<open>app.id\<close>, \<^verbatim>\<open>app.version\<close> (parsed, a time), \<^verbatim>\<open>app.tasks_running\<close>,
  \<^verbatim>\<open>app.deployments\<close>, \<^verbatim>\<open>app.tasks\<close>. Times are seconds since the epoch.
\<close>

record marathon_app =
  ma_id :: string
  ma_version :: rat
  tasks_running :: int
  deployments :: "string list"
  app_tasks :: "marathon_task list"

text \<open>The job configuration loaded by \<^verbatim>\<open>marathon_tools.load_marathon_service_config\<close>.\<close>

record job_config =
  get_bounce_method :: string
  get_desired_state_human :: ctext
  get_instances :: int

text \<open>
  Modelled from the spec: \<^verbatim>\<open>compose_job_id\<close> of \<^verbatim>\<open>paasta_tools.utils\<close> is not in the sources;
  the spec calls its result the service.instance pair.
\<close>

definition compose_job_id :: "string \<Rightarrow> string \<Rightarrow> string" where
  "compose_job_id service instance = service @ ''.'' @ instance"

subsection \<open>Instance count resolver\<close>

text \<open>
  \<^verbatim>\<open>get_bouncing_status\<close>: \<open>apps\<close> is what \<^verbatim>\<open>marathon_tools.get_matching_appids\<close> answered.
  The \<^verbatim>\<open>if\<close>/\<^verbatim>\<open>elif\<close> chain is the source's, over the integer \<^verbatim>\<open>len(apps)\<close>.
\<close>

definition bouncing_status_of_count :: "int \<Rightarrow> string \<Rightarrow> rich" where
  "bouncing_status_of_count app_count bounce_method =
     (if app_count = 0 then paint Red ''Stopped''
      else if app_count = 1 then paint Green ''Running''
      else if app_count > 1 then paint Yellow (''Bouncing ('' @ bounce_method @ '')'')
      else paint Red (''Unknown (count: '' @ fmt_d app_count @ '')''))"

definition get_bouncing_status :: "string list \<Rightarrow> job_config \<Rightarrow> rich" where
  "get_bouncing_status apps jc =
     (let bounce_method = get_bounce_method jc;
          app_count = int (length apps)
      in bouncing_status_of_count app_count bounce_method)"

definition status_desired_state :: "string list \<Rightarrow> job_config \<Rightarrow> ctext" where
  "status_desired_state apps jc =
     (let status = get_bouncing_status apps jc;
          desired_state = get_desired_state_human jc
      in [Raw ''State:      '', status, Raw '' - Desired state: ''] @ desired_state)"

subsection \<open>Task state classifier\<close>

text \<open>
  \<^verbatim>\<open>status_mesos_tasks\<close>: \<open>running_and_active_tasks\<close> is what
  \<^verbatim>\<open>get_running_tasks_from_active_frameworks\<close> answered for the job id.
\<close>

definition status_mesos_tasks :: "'t list \<Rightarrow> int \<Rightarrow> ctext" where
  "status_mesos_tasks running_and_active_tasks normal_instance_count =
     (let count = int (length running_and_active_tasks);
          (status, count_text) =
            (if count \<ge> normal_instance_count then
               (paint Green ''Healthy'', paint Green (fmt_count count normal_instance_count))
             else if count = 0 then
               (paint Red ''Critical'', paint Red (fmt_count count normal_instance_count))
             else
               (paint Yellow ''Warning'', paint Yellow (fmt_count count normal_instance_count)));
          running_string = paint Bold ''TASK_RUNNING''
      in [Raw ''Mesos:      '', status, Raw '' - '', count_text, Raw '' tasks in the '',
          running_string, Raw '' state.''])"

text \<open>
  \<^verbatim>\<open>status_marathon_job\<close>: \<open>app\<close> is \<open>None\<close> when \<^verbatim>\<open>marathon_tools.is_app_id_running\<close>
  answered no, and otherwise the app that \<^verbatim>\<open>client.get_app\<close> returned.
\<close>

definition status_marathon_job ::
  "string \<Rightarrow> string \<Rightarrow> string \<Rightarrow> int \<Rightarrow> marathon_app option \<Rightarrow> ctext" where
  "status_marathon_job service instance app_id normal_instance_count app =
     (let name = paint Cyan (compose_job_id service instance) in
      case app of
        Some a \<Rightarrow>
          (let running_instances = tasks_running a;
               deploy_status =
                 (if length (deployments a) = 0 then paint Bold ''Running''
                  else paint Yellow ''Deploying'');
               (status, instance_count) =
                 (if running_instances \<ge> normal_instance_count then
                    (paint Green ''Healthy'',
                     paint Green (fmt_count running_instances normal_instance_count))
                  else if running_instances = 0 then
                    (paint Yellow ''Critical'',
                     paint Red (fmt_count running_instances normal_instance_count))
                  else
                    (paint Yellow ''Warning'',
                     paint Yellow (fmt_count running_instances normal_instance_count)))
           in [Raw ''Marathon:   '', status, Raw '' - up with '', instance_count,
               Raw '' instances. Status: '', deploy_status, Raw ''.''])
      | None \<Rightarrow>
          (let red_not = paint Red ''NOT'';
               status = paint Red ''Critical''
           in [Raw ''Marathon:   '', status, Raw '' - '', name, Raw ('' (app '' @ app_id @ '') is ''),
               red_not, Raw '' running in Marathon.'']))"

subsection \<open>SmartStack backends\<close>

text \<open>One row of the haproxy CSV, the keys this file reads.\<close>

record backend =
  svname :: string
  status :: string
  check_status :: string
  check_code :: string
  check_duration :: string
  lastchg :: int

text \<open>Python's \<^verbatim>\<open>s.split(c)\<close> for a one-character separator: never the empty list.\<close>

fun split_on :: "char \<Rightarrow> string \<Rightarrow> string list" where
  "split_on c [] = [[]]"
| "split_on c (x # xs) =
     (if x = c then [] # split_on c xs
      else (case split_on c xs of w # ws \<Rightarrow> (x # w) # ws | [] \<Rightarrow> [[x]]))"

text \<open>\<^verbatim>\<open>'{0:<n}'.format(s)\<close> for a string without colour: left-justified in \<open>n\<close> columns.\<close>

definition ljust :: "nat \<Rightarrow> string \<Rightarrow> string" where
  "ljust n s = s @ replicate (n - length s) CHR '' ''"

text \<open>
  Modelled from the spec: \<^verbatim>\<open>is_under_replicated\<close> of \<^verbatim>\<open>paasta_tools.utils\<close> is not in the
  sources. The spec gives the replication ratio as the up count over the expected count times
  100, an integer, rounded (here to the nearest integer, a half upwards), and
  under-replication as that ratio falling below the threshold. It defines the ratio only for
  a positive expected count and excludes a location with zero expected instances from the
  ratio math: there nothing is computed, the location is not under-replicated, and the
  second component is a placeholder that the report never shows.
\<close>

definition is_under_replicated :: "int \<Rightarrow> int \<Rightarrow> int \<Rightarrow> bool \<times> int" where
  "is_under_replicated num_available expected_count crit_threshold =
     (if expected_count = 0 then (False, 0)
      else (let ratio = round (of_int num_available / of_int expected_count * 100 :: rat)
            in (ratio < crit_threshold, ratio)))"

definition haproxy_backend_report :: "int \<Rightarrow> int \<Rightarrow> ctext" where
  "haproxy_backend_report normal_instance_count up_backends =
     (let crit_threshold = 50;
          (under_replicated, ratio) =
             is_under_replicated up_backends normal_instance_count crit_threshold;
          (status, count) =
            (if under_replicated then
               (paint Red ''Critical'',
                paint Red (''('' @ fmt_d up_backends @ ''/'' @ fmt_d normal_instance_count @ '', ''
                           @ fmt_d ratio @ ''%)''))
             else
               (paint Green ''Healthy'',
                paint Green (fmt_count up_backends normal_instance_count)));
          up_string = paint Bold ''UP''
      in [status, Raw '' - in haproxy with '', count, Raw '' total backends '', up_string,
          Raw '' in this namespace.''])"

text \<open>
  \<^verbatim>\<open>pretty_print_haproxy_backend\<close>. \<open>naturaltime_delta\<close> is
  \<^verbatim>\<open>humanize.naturaltime(datetime.timedelta(seconds=n))\<close>. The three padded columns are plain
  strings; the status, coloured, comes last and is not padded.
\<close>

definition pretty_print_haproxy_backend ::
  "(int \<Rightarrow> string) \<Rightarrow> backend \<Rightarrow> bool \<Rightarrow> ctext" where
  "pretty_print_haproxy_backend naturaltime_delta b is_correct_instance =
     (let backend_name = svname b;
          backend_hostname = last (split_on CHR ''_'' backend_name);
          backend_port = last (split_on CHR '':'' (hd (split_on CHR ''_'' backend_name)));
          pretty_backend_name = backend_hostname @ '':'' @ backend_port;
          st =
            (if status b = ''UP'' then paint Default (status b)
             else if status b = ''DOWN'' \<or> status b = ''MAINT'' then paint Red (status b)
             else paint Yellow (status b));
          lastcheck = check_status b @ ''/'' @ check_code b @ '' in '' @ check_duration b @ ''ms'';
          lastchange = naturaltime_delta (lastchg b);
          status_text =
            [Raw (''      '' @ ljust 32 pretty_backend_name @ ljust 20 lastcheck
                  @ ljust 16 lastchange), st]
      in if is_correct_instance then color_text Default status_text
         else color_text Grey (remove_ansi_escape_sequences status_text))"

text \<open>
  \<^verbatim>\<open>sorted(backends, key=lambda backend: backend['status'], reverse=True)\<close>. Python's sort is
  stable, and with \<^verbatim>\<open>reverse=True\<close> it still keeps equal keys in their original order: it is
  the stable ascending sort of the reversed list, reversed. Strings compare byte by byte.
\<close>

definition sorted_reverse :: "('a \<Rightarrow> string) \<Rightarrow> 'a list \<Rightarrow> 'a list" where
  "sorted_reverse key xs = rev (sort_key key (rev xs))"

definition sort_backends :: "backend list \<Rightarrow> backend list" where
  "sort_backends bs = sorted_reverse status bs"

text \<open>
  Modelled from the spec: \<^verbatim>\<open>match_backends_and_tasks\<close> and \<^verbatim>\<open>backend_is_up\<close> of
  \<^verbatim>\<open>paasta_tools.monitoring.replication_utils\<close> are not in the sources. The spec: for each
  backend, find a task whose host:port encoding matches the backend's endpoint identity (host
  prefix before the first dot, port from the endpoint's leading segment), the first match;
  emit one pair per backend, with no task when none matches, and one pair per unmatched task;
  a task matches at most one backend, so a matched task is not offered to a later backend.
  The two encodings are the ones this file prints: \<^verbatim>\<open>pretty_print_haproxy_backend\<close> for a
  backend, \<^verbatim>\<open>get_verbose_status_of_marathon_app\<close> for a task. A backend is up when its status
  is \<^verbatim>\<open>UP\<close>.
\<close>

definition backend_endpoint :: "backend \<Rightarrow> string \<times> string" where
  "backend_endpoint b =
     (last (split_on CHR ''_'' (svname b)),
      last (split_on CHR '':'' (hd (split_on CHR ''_'' (svname b)))))"

definition task_endpoint :: "marathon_task \<Rightarrow> (string \<times> string) option" where
  "task_endpoint t =
     (case mt_host t of
        None \<Rightarrow> None
      | Some h \<Rightarrow>
          (case mt_ports t of
             [] \<Rightarrow> None
           | p # _ \<Rightarrow> Some (hd (split_on CHR ''.'' h), fmt_d p)))"

definition endpoint_matches :: "backend \<Rightarrow> marathon_task \<Rightarrow> bool" where
  "endpoint_matches b t = (task_endpoint t = Some (backend_endpoint b))"

fun take_first_match :: "backend \<Rightarrow> marathon_task list \<Rightarrow> (marathon_task \<times> marathon_task list) option" where
  "take_first_match b [] = None"
| "take_first_match b (t # ts) =
     (if endpoint_matches b t then Some (t, ts)
      else (case take_first_match b ts of
              None \<Rightarrow> None
            | Some (m, rest) \<Rightarrow> Some (m, t # rest)))"

type_synonym matched_pair = "backend option \<times> marathon_task option"

fun match_backends_and_tasks :: "backend list \<Rightarrow> marathon_task list \<Rightarrow> matched_pair list" where
  "match_backends_and_tasks [] ts = map (\<lambda>t. (None, Some t)) ts"
| "match_backends_and_tasks (b # bs) ts =
     (case take_first_match b ts of
        None \<Rightarrow> (Some b, None) # match_backends_and_tasks bs ts
      | Some (t, rest) \<Rightarrow> (Some b, Some t) # match_backends_and_tasks bs rest)"

definition backend_is_up :: "backend \<Rightarrow> bool" where
  "backend_is_up b = (status b = ''UP'')"

text \<open>
  The body of the loop of \<^verbatim>\<open>pretty_print_smartstack_backends_for_locations\<close> for one
  location. \<open>get_backends\<close> is what the synapse host answers for the service instance.
  \<^verbatim>\<open>hosts[0]\<close> raises \<^verbatim>\<open>IndexError\<close> on an empty host list.
\<close>

definition location_lines ::
  "(string \<Rightarrow> string \<Rightarrow> backend list) \<Rightarrow> (int \<Rightarrow> string) \<Rightarrow> string \<Rightarrow> marathon_task list
     \<Rightarrow> int \<Rightarrow> bool \<Rightarrow> string \<times> string list \<Rightarrow> exn + ctext list" where
  "location_lines get_backends naturaltime_delta service_instance tasks
       expected_count_per_location verbose loc =
     (let (location, hosts) = loc in
      case hosts of
        [] \<Rightarrow> Inl IndexError
      | synapse_host # _ \<Rightarrow>
          (let sorted_backends = sort_backends (get_backends service_instance synapse_host);
               matched_tasks = match_backends_and_tasks sorted_backends tasks;
               running_count =
                 int (length (filter (\<lambda>(b, t). case b of None \<Rightarrow> False | Some b' \<Rightarrow> backend_is_up b')
                                matched_tasks));
               head = [Raw (''    '' @ location @ '' - '')]
                        @ haproxy_backend_report expected_count_per_location running_count;
               detail =
                 (if verbose then
                    concat (map (\<lambda>(b, t). case b of
                                    None \<Rightarrow> []
                                  | Some b' \<Rightarrow> [pretty_print_haproxy_backend naturaltime_delta b' (t \<noteq> None)])
                                matched_tasks)
                  else [])
           in Inr (head # detail)))"

text \<open>The loop: the first location that raises ends it, and the output so far is lost.\<close>

fun locations_loop :: "('l \<Rightarrow> exn + ctext list) \<Rightarrow> 'l list \<Rightarrow> exn + ctext list" where
  "locations_loop body [] = Inr []"
| "locations_loop body (l # ls) =
     (case body l of
        Inl e \<Rightarrow> Inl e
      | Inr out \<Rightarrow>
          (case locations_loop body ls of
             Inl e \<Rightarrow> Inl e
           | Inr outs \<Rightarrow> Inr (out @ outs)))"

text \<open>
  \<^verbatim>\<open>pretty_print_smartstack_backends_for_locations\<close>. \<open>locations\<close> holds the items of the
  dictionary from location to hosts (its keys are distinct); \<^verbatim>\<open>sorted(locations)\<close> walks them
  in key order. The division is Python 2's on integers, the floor, and raises on zero.
\<close>

definition pretty_print_smartstack_backends_for_locations ::
  "(string \<Rightarrow> string \<Rightarrow> backend list) \<Rightarrow> (int \<Rightarrow> string) \<Rightarrow> string \<Rightarrow> marathon_task list
     \<Rightarrow> (string \<times> string list) list \<Rightarrow> int \<Rightarrow> bool \<Rightarrow> exn + ctext list" where
  "pretty_print_smartstack_backends_for_locations get_backends naturaltime_delta
       service_instance tasks locations expected_count verbose =
     (if length locations = 0 then Inl ZeroDivisionError
      else
        (let expected_count_per_location = expected_count div int (length locations)
         in locations_loop
              (location_lines get_backends naturaltime_delta service_instance tasks
                 expected_count_per_location verbose)
              (sort_key fst locations)))"

text \<open>
  \<^verbatim>\<open>status_smartstack_backends\<close>. \<open>nerve_ns\<close> is what
  \<^verbatim>\<open>read_namespace_for_service_instance\<close> answered and \<open>unique_attributes\<close> what
  \<^verbatim>\<open>get_mesos_slaves_grouped_by_attribute\<close> answered. \<open>smartstack_output\<close> is the list
  \<^verbatim>\<open>output\<close> at the \<^verbatim>\<open>return\<close> that is reached; the function returns it joined.
\<close>

definition smartstack_output ::
  "(string \<Rightarrow> string \<Rightarrow> backend list) \<Rightarrow> (int \<Rightarrow> string) \<Rightarrow> string
     \<Rightarrow> (string \<times> string list) list \<Rightarrow> string \<Rightarrow> string \<Rightarrow> marathon_task list \<Rightarrow> int \<Rightarrow> bool
     \<Rightarrow> exn + ctext list" where
  "smartstack_output get_backends naturaltime_delta nerve_ns unique_attributes
       service instance tasks expected_count verbose =
     (let service_instance = compose_job_id service nerve_ns;
          output =
            (if instance \<noteq> nerve_ns then
               [[Raw (''Smartstack: N/A - '' @ instance @ '' is announced in the ''),
                 paint Bold nerve_ns, Raw '' namespace.'']]
             else [])
      in if instance \<noteq> nerve_ns \<and> \<not> verbose then Inr output
         else if length unique_attributes = 0 then
           Inr (output @ [[Raw (''Smartstack: ERROR - '' @ service_instance
                                @ '' is NOT in smartstack at all!'')]])
         else
           (case pretty_print_smartstack_backends_for_locations get_backends naturaltime_delta
                   service_instance tasks unique_attributes expected_count verbose of
              Inl e \<Rightarrow> Inl e
            | Inr ls \<Rightarrow>
                Inr (output @ [[Raw ''Smartstack:'']]
                     @ (if verbose then
                          [[Raw (''  Haproxy Service Name: '' @ service_instance)],
                           [Raw ''  Backends: Name                      LastCheck           LastChange      Status'']]
                        else [])
                     @ ls)))"

definition status_smartstack_backends ::
  "(string \<Rightarrow> string \<Rightarrow> backend list) \<Rightarrow> (int \<Rightarrow> string) \<Rightarrow> string
     \<Rightarrow> (string \<times> string list) list \<Rightarrow> string \<Rightarrow> string \<Rightarrow> marathon_task list \<Rightarrow> int \<Rightarrow> bool
     \<Rightarrow> exn + ctext" where
  "status_smartstack_backends get_backends naturaltime_delta nerve_ns unique_attributes
       service instance tasks expected_count verbose =
     (case smartstack_output get_backends naturaltime_delta nerve_ns unique_attributes
             service instance tasks expected_count verbose of
        Inl e \<Rightarrow> Inl e
      | Inr output \<Rightarrow> Inr (join_lines output))"

subsection \<open>Task telemetry sampler\<close>

text \<open>
  The numbers of the CPU metric are Python floats. Their arithmetic is not modelled: the
  operations the source applies to them are the fields of a record, over a type \<open>'f\<close> of
  numbers, and every property below holds for whatever these operations compute.
  \<open>fl_of_int\<close> is the number of an integer literal or value, \<open>fl_tenth\<close> the literal \<^verbatim>\<open>.1\<close>,
  \<open>fl_round\<close> is \<^verbatim>\<open>round(x)\<close>, \<open>fl_round1\<close> is \<^verbatim>\<open>round(x, 1)\<close>, \<open>fl_eq\<close> is \<^verbatim>\<open>==\<close>, \<open>fl_gt\<close> is
  \<^verbatim>\<open>>\<close>, \<open>fl_str\<close> is \<^verbatim>\<open>"%s" % x\<close>, and \<open>fl_fromtimestamp\<close> is
  \<^verbatim>\<open>datetime.datetime.fromtimestamp(float(x))\<close>, a time.
\<close>

record 'f float_ops =
  fl_of_int :: "int \<Rightarrow> 'f"
  fl_tenth :: "'f"
  fl_add :: "'f \<Rightarrow> 'f \<Rightarrow> 'f"
  fl_sub :: "'f \<Rightarrow> 'f \<Rightarrow> 'f"
  fl_mul :: "'f \<Rightarrow> 'f \<Rightarrow> 'f"
  fl_div :: "'f \<Rightarrow> 'f \<Rightarrow> 'f"
  fl_round :: "'f \<Rightarrow> 'f"
  fl_round1 :: "'f \<Rightarrow> 'f"
  fl_eq :: "'f \<Rightarrow> 'f \<Rightarrow> bool"
  fl_gt :: "'f \<Rightarrow> 'f \<Rightarrow> bool"
  fl_str :: "'f \<Rightarrow> string"
  fl_fromtimestamp :: "'f \<Rightarrow> rat"

text \<open>
  A Mesos task as this file reads it: \<^verbatim>\<open>task['id']\<close>, \<^verbatim>\<open>task['state']\<close>, the timestamps of
  \<^verbatim>\<open>task['statuses']\<close> in order, and the attributes that ask the slave for the task's record:
  \<^verbatim>\<open>task.cpu_limit\<close>, \<^verbatim>\<open>task.stats\<close>, \<^verbatim>\<open>task.mem_limit\<close>, \<^verbatim>\<open>task.rss\<close> (byte counts, integers),
  \<^verbatim>\<open>task.slave['hostname']\<close>. Reading such an attribute gives its value or raises one of the
  exceptions that the source expects of it: \<^verbatim>\<open>AttributeError\<close>, \<^verbatim>\<open>SlaveDoesNotExist\<close>, or
  \<^verbatim>\<open>TimeoutError\<close>.

  Modelled from the spec: the \<^verbatim>\<open>timeout\<close> decorator of \<^verbatim>\<open>paasta_tools.utils\<close> is not in the
  sources. The spec bounds the duration of each sample; a sample exceeds its bound while it
  waits for the execution layer, that is in one of these attribute reads, where the
  decorator then raises \<^verbatim>\<open>TimeoutError\<close>.
\<close>

datatype read_error = Attribute_Error | Slave_Does_Not_Exist | Timeout_Error

primrec raised :: "read_error \<Rightarrow> exn" where
  "raised Attribute_Error = AttributeError"
| "raised Slave_Does_Not_Exist = SlaveDoesNotExist"
| "raised Timeout_Error = TimeoutError"

record 'f mesos_task =
  task_id :: string
  task_state :: string
  statuses :: "'f list"
  cpu_limit :: "read_error + 'f"
  stats :: "read_error + (string \<rightharpoonup> 'f)"
  mem_limit :: "read_error + int"
  rss :: "read_error + int"
  slave_hostname :: "read_error + string"

text \<open>\<^verbatim>\<open>d.get(key, default)\<close>\<close>

definition dict_get :: "('k \<rightharpoonup> 'v) \<Rightarrow> 'k \<Rightarrow> 'v \<Rightarrow> 'v" where
  "dict_get d k dflt = (case d k of None \<Rightarrow> dflt | Some v \<Rightarrow> v)"

text \<open>
  The two \<^verbatim>\<open>except\<close> clauses that \<^verbatim>\<open>get_cpu_usage\<close> and \<^verbatim>\<open>get_mem_usage\<close> share:
  \<^verbatim>\<open>except (AttributeError, SlaveDoesNotExist): return "None"\<close> and
  \<^verbatim>\<open>except TimeoutError: return "Timed Out"\<close>. Any other exception leaves the function.
\<close>

definition except_none_timed_out :: "exn + rich \<Rightarrow> exn + rich" where
  "except_none_timed_out r =
     (case r of
        Inr v \<Rightarrow> Inr v
      | Inl e \<Rightarrow>
          (if e = AttributeError \<or> e = SlaveDoesNotExist then Inr (Raw ''None'')
           else if e = TimeoutError then Inr (Raw ''Timed Out'')
           else Inl e))"

text \<open>
  \<^verbatim>\<open>get_cpu_usage\<close>; \<open>current_time\<close> is \<^verbatim>\<open>int(datetime.datetime.now().strftime('%s'))\<close>.
  \<^verbatim>\<open>task['statuses'][0]\<close> raises \<^verbatim>\<open>IndexError\<close> on an empty list. The default \<^verbatim>\<open>0.0\<close> of the
  two statistics is the number of the integer 0.
\<close>

definition get_cpu_usage :: "'f float_ops \<Rightarrow> int \<Rightarrow> 'f mesos_task \<Rightarrow> exn + rich" where
  "get_cpu_usage fl current_time task =
     except_none_timed_out
       (case statuses task of
          [] \<Rightarrow> Inl IndexError
        | timestamp # _ \<Rightarrow>
            (let start_time = fl_round fl timestamp;
                 duration_seconds = fl_sub fl (fl_of_int fl current_time) start_time
             in case cpu_limit task of
                  Inl e \<Rightarrow> Inl (raised e)
                | Inr limit \<Rightarrow>
                    (let cpu_shares = fl_sub fl limit (fl_tenth fl);
                         allocated_seconds = fl_mul fl duration_seconds cpu_shares
                     in case stats task of
                          Inl e \<Rightarrow> Inl (raised e)
                        | Inr st \<Rightarrow>
                            (let used_seconds =
                                   fl_add fl (dict_get st ''cpus_system_time_secs'' (fl_of_int fl 0))
                                     (dict_get st ''cpus_user_time_secs'' (fl_of_int fl 0))
                             in if fl_eq fl allocated_seconds (fl_of_int fl 0) then Inr (Raw ''Undef'')
                                else
                                  (let percent =
                                         fl_round1 fl
                                           (fl_mul fl (fl_of_int fl 100)
                                              (fl_div fl used_seconds allocated_seconds));
                                       percent_string = fl_str fl percent @ ''%''
                                   in if fl_gt fl percent (fl_of_int fl 90)
                                      then Inr (paint Red percent_string)
                                      else Inr (Raw percent_string))))))"

text \<open>\<^verbatim>\<open>get_mem_usage\<close>; the divisions are Python 2's on integers, the floor.\<close>

definition get_mem_usage :: "'f mesos_task \<Rightarrow> exn + rich" where
  "get_mem_usage task =
     except_none_timed_out
       (case mem_limit task of
          Inl e \<Rightarrow> Inl (raised e)
        | Inr task_mem_limit \<Rightarrow>
            (case rss task of
               Inl e \<Rightarrow> Inl (raised e)
             | Inr task_rss \<Rightarrow>
                 (if task_mem_limit = 0 then Inr (Raw ''Undef'')
                  else
                    (let mem_percent = task_rss div task_mem_limit * 100;
                         mem_string = fmt_d (task_rss div 1024 div 1024) @ ''/''
                                      @ fmt_d (task_mem_limit div 1024 div 1024) @ ''MB''
                     in if mem_percent > 90 then Inr (paint Red mem_string)
                        else Inr (Raw mem_string)))))"

subsection \<open>Verbose tables\<close>

text \<open>
  Modelled from the spec: the constant \<^verbatim>\<open>SPACER\<close> of \<^verbatim>\<open>paasta_tools.utils\<close> is not in the
  sources; it is the separator of the service.instance pair.
\<close>

definition SPACER :: char where
  "SPACER = CHR ''.''"

definition get_task_uuid :: "string \<Rightarrow> string" where
  "get_task_uuid taskid = last (split_on SPACER taskid)"

definition get_short_hostname_from_task :: "'f mesos_task \<Rightarrow> exn + string" where
  "get_short_hostname_from_task task =
     (case slave_hostname task of
        Inr hostname \<Rightarrow> Inr (hd (split_on CHR ''.'' hostname))
      | Inl e \<Rightarrow>
          (if raised e = AttributeError \<or> raised e = SlaveDoesNotExist then Inr ''Unknown''
           else Inl (raised e)))"

text \<open>
  \<^verbatim>\<open>get_first_status_timestamp\<close>: \<open>strftime_minute\<close> is \<^verbatim>\<open>strftime("%Y-%m-%dT%H:%M")\<close> of the
  local time and \<open>naturaltime\<close> is \<^verbatim>\<open>humanize.naturaltime\<close>. Its \<^verbatim>\<open>except\<close> clause takes the
  \<^verbatim>\<open>IndexError\<close> of an empty status list.
\<close>

definition get_first_status_timestamp ::
  "'f float_ops \<Rightarrow> (rat \<Rightarrow> string) \<Rightarrow> (rat \<Rightarrow> string) \<Rightarrow> 'f mesos_task \<Rightarrow> string" where
  "get_first_status_timestamp fl strftime_minute naturaltime task =
     (case statuses task of
        [] \<Rightarrow> ''Unknown''
      | start_time_string # _ \<Rightarrow>
          (let start_time = fl_fromtimestamp fl start_time_string
           in strftime_minute start_time @ '' ('' @ naturaltime start_time @ '')''))"

text \<open>
  \<^verbatim>\<open>'{0:<n}'.format(cell)\<close> for a cell that may be coloured: Python pads by the length of the
  string with its escape codes; \<open>escape_chars c\<close> is how many characters colour \<open>c\<close> adds.
\<close>

definition cell_len :: "(colour \<Rightarrow> nat) \<Rightarrow> rich \<Rightarrow> nat" where
  "cell_len escape_chars cell =
     (case cell of Raw s \<Rightarrow> length s | Col c rs \<Rightarrow> length (plain cell) + escape_chars c)"

definition ljust_cell :: "(colour \<Rightarrow> nat) \<Rightarrow> nat \<Rightarrow> rich \<Rightarrow> ctext" where
  "ljust_cell escape_chars n cell = [cell, Raw (replicate (n - cell_len escape_chars cell) CHR '' '')]"

text \<open>\<^verbatim>\<open>RUNNING_TASK_FORMAT.format(t)\<close> and \<^verbatim>\<open>NON_RUNNING_TASK_FORMAT.format(t)\<close>\<close>

definition RUNNING_TASK_FORMAT ::
  "(colour \<Rightarrow> nat) \<Rightarrow> rich \<times> rich \<times> rich \<times> rich \<times> rich \<Rightarrow> ctext" where
  "RUNNING_TASK_FORMAT escape_chars t =
     (let (c0, c1, c2, c3, c4) = t
      in [Raw ''    ''] @ ljust_cell escape_chars 37 c0 @ ljust_cell escape_chars 20 c1
         @ ljust_cell escape_chars 10 c2 @ ljust_cell escape_chars 6 c3 @ [c4])"

definition NON_RUNNING_TASK_FORMAT ::
  "(colour \<Rightarrow> nat) \<Rightarrow> rich \<times> rich \<times> rich \<times> rich \<Rightarrow> ctext" where
  "NON_RUNNING_TASK_FORMAT escape_chars t =
     (let (c0, c1, c2, c3) = t
      in [Raw ''    ''] @ ljust_cell escape_chars 37 c0 @ ljust_cell escape_chars 20 c1
         @ ljust_cell escape_chars 33 c2 @ [c3])"

text \<open>
  \<^verbatim>\<open>pretty_format_running_mesos_task\<close>: the tuple's components are evaluated in order, and
  the first one that raises ends the function.
\<close>

definition pretty_format_running_mesos_task ::
  "'f float_ops \<Rightarrow> (colour \<Rightarrow> nat) \<Rightarrow> (rat \<Rightarrow> string) \<Rightarrow> (rat \<Rightarrow> string) \<Rightarrow> int
     \<Rightarrow> 'f mesos_task \<Rightarrow> exn + ctext" where
  "pretty_format_running_mesos_task fl escape_chars strftime_minute naturaltime current_time task =
     (case get_short_hostname_from_task task of
        Inl e \<Rightarrow> Inl e
      | Inr hostname \<Rightarrow>
          (case get_mem_usage task of
             Inl e \<Rightarrow> Inl e
           | Inr mem \<Rightarrow>
               (case get_cpu_usage fl current_time task of
                  Inl e \<Rightarrow> Inl e
                | Inr cpu \<Rightarrow>
                    Inr (RUNNING_TASK_FORMAT escape_chars
                           (Raw (get_task_uuid (task_id task)), Raw hostname, mem, cpu,
                            Raw (get_first_status_timestamp fl strftime_minute naturaltime task))))))"

definition pretty_format_non_running_mesos_task ::
  "'f float_ops \<Rightarrow> (colour \<Rightarrow> nat) \<Rightarrow> (rat \<Rightarrow> string) \<Rightarrow> (rat \<Rightarrow> string) \<Rightarrow> 'f mesos_task
     \<Rightarrow> exn + ctext" where
  "pretty_format_non_running_mesos_task fl escape_chars strftime_minute naturaltime task =
     (case get_short_hostname_from_task task of
        Inl e \<Rightarrow> Inl e
      | Inr hostname \<Rightarrow>
          Inr (color_text Grey
                 (NON_RUNNING_TASK_FORMAT escape_chars
                    (Raw (get_task_uuid (task_id task)), Raw hostname,
                     Raw (get_first_status_timestamp fl strftime_minute naturaltime task),
                     Raw (task_state task)))))"

text \<open>A \<^verbatim>\<open>for\<close> loop that appends one line per element and stops at the first exception.\<close>

fun rows :: "('a \<Rightarrow> exn + ctext) \<Rightarrow> 'a list \<Rightarrow> exn + ctext list" where
  "rows f [] = Inr []"
| "rows f (x # xs) =
     (case f x of
        Inl e \<Rightarrow> Inl e
      | Inr l \<Rightarrow> (case rows f xs of Inl e \<Rightarrow> Inl e | Inr ls \<Rightarrow> Inr (l # ls)))"

text \<open>
  \<^verbatim>\<open>status_mesos_tasks_verbose\<close>; \<^verbatim>\<open>xs[-10:]\<close> is the last ten elements of \<open>xs\<close>.
\<close>

definition status_mesos_tasks_verbose ::
  "'f float_ops \<Rightarrow> (colour \<Rightarrow> nat) \<Rightarrow> (rat \<Rightarrow> string) \<Rightarrow> (rat \<Rightarrow> string) \<Rightarrow> int
     \<Rightarrow> 'f mesos_task list \<Rightarrow> 'f mesos_task list \<Rightarrow> exn + ctext" where
  "status_mesos_tasks_verbose fl escape_chars strftime_minute naturaltime current_time
       running_and_active_tasks all_non_running_tasks =
     (let header =
            RUNNING_TASK_FORMAT escape_chars
              (Raw ''  Running Tasks:  Mesos Task ID'', Raw ''Host deployed to'', Raw ''Ram'',
               Raw ''CPU'', Raw ''Deployed at what localtime'')
      in case rows (pretty_format_running_mesos_task fl escape_chars strftime_minute naturaltime
                      current_time) running_and_active_tasks of
           Inl e \<Rightarrow> Inl e
         | Inr running_rows \<Rightarrow>
             (let non_running_tasks =
                    rev (drop (length all_non_running_tasks - 10) all_non_running_tasks);
                  header2 =
                    color_text Grey
                      (NON_RUNNING_TASK_FORMAT escape_chars
                         (Raw ''  Non-Running Tasks:  Mesos Task ID'', Raw ''Host deployed to'',
                          Raw ''Deployed at what localtime'', Raw ''Status''))
              in case rows (pretty_format_non_running_mesos_task fl escape_chars strftime_minute
                              naturaltime) non_running_tasks of
                   Inl e \<Rightarrow> Inl e
                 | Inr non_running_rows \<Rightarrow>
                     Inr (join_lines ([header] @ running_rows @ [header2] @ non_running_rows))))"

text \<open>
  \<^verbatim>\<open>get_verbose_status_of_marathon_app\<close>; \<open>str_datetime\<close> is \<^verbatim>\<open>str\<close> of the local time.
  \<^verbatim>\<open>task.ports[0]\<close> raises \<^verbatim>\<open>IndexError\<close> when a task with a host has no port.
\<close>

definition marathon_task_line ::
  "(rat \<Rightarrow> string) \<Rightarrow> (rat \<Rightarrow> string) \<Rightarrow> marathon_task \<Rightarrow> exn + ctext" where
  "marathon_task_line strftime_minute naturaltime task =
     (let local_deployed_datetime = mt_staged_at task
      in case (case mt_host task of
                 Some h \<Rightarrow>
                   (case mt_ports task of
                      [] \<Rightarrow> Inl IndexError
                    | p # _ \<Rightarrow> Inr (hd (split_on CHR ''.'' h) @ '':'' @ fmt_d p))
               | None \<Rightarrow> Inr ''Unknown'') of
           Inl e \<Rightarrow> Inl e
         | Inr hostname \<Rightarrow>
             Inr [Raw (''      '' @ ljust 37 (get_task_uuid (mt_id task)) @ ljust 25 hostname @ '' ''
                       @ ljust 17 (strftime_minute local_deployed_datetime)
                       @ ''('' @ naturaltime local_deployed_datetime @ '')'')])"

definition get_verbose_status_of_marathon_app ::
  "(rat \<Rightarrow> string) \<Rightarrow> (rat \<Rightarrow> string) \<Rightarrow> (rat \<Rightarrow> string) \<Rightarrow> marathon_app
     \<Rightarrow> exn + (marathon_task list \<times> ctext)" where
  "get_verbose_status_of_marathon_app str_datetime strftime_minute naturaltime app =
     (let create_datetime = ma_version app;
          output =
            [[Raw ''  Marathon app ID: '', paint Bold (ma_id app)],
             [Raw (''    App created: '' @ str_datetime create_datetime
                   @ '' ('' @ naturaltime create_datetime @ '')'')],
             [Raw ''    Tasks:  Mesos Task ID                  Host deployed to         Deployed at what localtime'']]
      in case rows (marathon_task_line strftime_minute naturaltime) (app_tasks app) of
           Inl e \<Rightarrow> Inl e
         | Inr task_lines \<Rightarrow>
             Inr (app_tasks app,
                  join_lines
                    (output @ task_lines
                     @ (if length (app_tasks app) = 0 then
                          [[Raw ''      No tasks associated with this marathon app'']]
                        else []))))"

text \<open>
  \<^verbatim>\<open>status_marathon_job_verbose\<close>: \<open>appids\<close> is what \<^verbatim>\<open>get_matching_appids\<close> answered and
  \<open>get_app\<close> is \<^verbatim>\<open>client.get_app\<close>.
\<close>

fun marathon_apps_loop ::
  "(marathon_app \<Rightarrow> exn + (marathon_task list \<times> ctext)) \<Rightarrow> (string \<Rightarrow> marathon_app) \<Rightarrow> string list
     \<Rightarrow> exn + (marathon_task list \<times> ctext list)" where
  "marathon_apps_loop f get_app [] = Inr ([], [])"
| "marathon_apps_loop f get_app (appid # appids) =
     (case f (get_app appid) of
        Inl e \<Rightarrow> Inl e
      | Inr (tasks, output) \<Rightarrow>
          (case marathon_apps_loop f get_app appids of
             Inl e \<Rightarrow> Inl e
           | Inr (all_tasks, all_output) \<Rightarrow> Inr (tasks @ all_tasks, output # all_output)))"

definition status_marathon_job_verbose ::
  "(rat \<Rightarrow> string) \<Rightarrow> (rat \<Rightarrow> string) \<Rightarrow> (rat \<Rightarrow> string) \<Rightarrow> (string \<Rightarrow> marathon_app) \<Rightarrow> string list
     \<Rightarrow> exn + (marathon_task list \<times> ctext)" where
  "status_marathon_job_verbose str_datetime strftime_minute naturaltime get_app appids =
     (case marathon_apps_loop
             (get_verbose_status_of_marathon_app str_datetime strftime_minute naturaltime)
             get_app appids of
        Inl e \<Rightarrow> Inl e
      | Inr (all_tasks, all_output) \<Rightarrow> Inr (all_tasks, join_lines all_output))"

subsection \<open>State-changing operations\<close>

text \<open>
  What a command does to the outside is a trace of events, in order: the audit events that
  \<^verbatim>\<open>_log\<close> receives (service name, line, component, level, cluster, instance) and the calls
  \<^verbatim>\<open>client.scale_app(app_id, instances=n, force=f)\<close>; and the lines printed. The Marathon client
  is its answer to a scale call, of any type \<open>'r\<close>.
\<close>

datatype event =
    Log_event string ctext string string string string
  | Scale_app string int bool

record state =
  events :: "event list"
  stdout :: "ctext list"

definition log_event :: "string \<Rightarrow> ctext \<Rightarrow> string \<Rightarrow> string \<Rightarrow> string \<Rightarrow> string \<Rightarrow> state \<Rightarrow> state" where
  "log_event service_name line component level cluster instance s =
     s\<lparr>events := events s @ [Log_event service_name line component level cluster instance]\<rparr>"

definition scale_app :: "(string \<Rightarrow> int \<Rightarrow> bool \<Rightarrow> 'r) \<Rightarrow> string \<Rightarrow> int \<Rightarrow> bool \<Rightarrow> state \<Rightarrow> 'r \<times> state" where
  "scale_app client app_id instances force s =
     (client app_id instances force, s\<lparr>events := events s @ [Scale_app app_id instances force]\<rparr>)"

definition print_line :: "ctext \<Rightarrow> state \<Rightarrow> state" where
  "print_line t s = s\<lparr>stdout := stdout s @ [t]\<rparr>"

definition start_marathon_job ::
  "string \<Rightarrow> string \<Rightarrow> string \<Rightarrow> int \<Rightarrow> (string \<Rightarrow> int \<Rightarrow> bool \<Rightarrow> 'r) \<Rightarrow> string \<Rightarrow> state \<Rightarrow> state" where
  "start_marathon_job service instance app_id normal_instance_count client cluster s =
     (let name = paint Cyan (compose_job_id service instance);
          s1 = log_event service
                 [Raw ''EmergencyStart: scaling '', name,
                  Raw ('' up to '' @ fmt_d normal_instance_count @ '' instances'')]
                 ''deploy'' ''event'' cluster instance s
      in snd (scale_app client app_id normal_instance_count True s1))"

definition stop_marathon_job ::
  "string \<Rightarrow> string \<Rightarrow> string \<Rightarrow> (string \<Rightarrow> int \<Rightarrow> bool \<Rightarrow> 'r) \<Rightarrow> string \<Rightarrow> state \<Rightarrow> state" where
  "stop_marathon_job service instance app_id client cluster s =
     (let name = paint Cyan (compose_job_id service instance);
          s1 = log_event service
                 [Raw ''EmergencyStop: Scaling '', name, Raw '' down to 0 instances'']
                 ''deploy'' ''event'' cluster instance s
      in snd (scale_app client app_id 0 True s1))"

definition restart_marathon_job ::
  "string \<Rightarrow> string \<Rightarrow> string \<Rightarrow> int \<Rightarrow> (string \<Rightarrow> int \<Rightarrow> bool \<Rightarrow> 'r) \<Rightarrow> string \<Rightarrow> state \<Rightarrow> state" where
  "restart_marathon_job service instance app_id normal_instance_count client cluster s =
     (let s1 = stop_marathon_job service instance app_id client cluster s
      in start_marathon_job service instance app_id normal_instance_count client cluster s1)"

subsection \<open>Command dispatch\<close>

text \<open>
  What the collaborators answer during one invocation, for its service, instance and cluster:
  \<^item> \<open>w_create_complete_config_id\<close>: \<^verbatim>\<open>create_complete_config(...)['id']\<close>, or the exception it
    raised;
  \<^item> the job configuration, the expected count for the namespace, the proxy port;
  \<^item> Marathon: the matching app ids, whether an app id is running, the app of an id;
  \<^item> Mesos: the running and the non-running tasks of the job, the slaves grouped by the
    discovery attribute;
  \<^item> SmartStack: the namespace, and the backends a synapse host reports;
  \<^item> the clock, the date and colour renderers, and the operations on floats.
\<close>

record 'f world =
  w_create_complete_config_id :: "exn + string"
  w_load_marathon_service_config :: job_config
  w_get_expected_instance_count_for_namespace :: int
  w_get_proxy_port_for_instance :: "int option"
  w_get_matching_appids :: "string list"
  w_is_app_id_running :: "string \<Rightarrow> bool"
  w_get_app :: "string \<Rightarrow> marathon_app"
  w_get_running_tasks_from_active_frameworks :: "'f mesos_task list"
  w_get_non_running_tasks_from_active_frameworks :: "'f mesos_task list"
  w_read_namespace_for_service_instance :: string
  w_get_mesos_slaves_grouped_by_attribute :: "(string \<times> string list) list"
  w_get_backends :: "string \<Rightarrow> string \<Rightarrow> backend list"
  w_current_time :: int
  w_naturaltime :: "rat \<Rightarrow> string"
  w_naturaltime_delta :: "int \<Rightarrow> string"
  w_str_datetime :: "rat \<Rightarrow> string"
  w_strftime_minute :: "rat \<Rightarrow> string"
  w_escape_chars :: "colour \<Rightarrow> nat"
  w_float :: "'f float_ops"

datatype outcome = Returned int | Raised exn

text \<open>
  The \<^verbatim>\<open>status\<close> branch of \<^verbatim>\<open>perform_command\<close>, statement by statement. An exception of a
  report leaves \<^verbatim>\<open>perform_command\<close>; what was printed before it stays printed.
\<close>

definition status_command ::
  "'f world \<Rightarrow> string \<Rightarrow> string \<Rightarrow> string \<Rightarrow> bool \<Rightarrow> string \<Rightarrow> state \<Rightarrow> outcome \<times> state" where
  "status_command w service instance cluster verbose app_id s =
     (let job_config = w_load_marathon_service_config w;
          normal_instance_count = get_instances job_config;
          normal_smartstack_count = w_get_expected_instance_count_for_namespace w;
          proxy_port = w_get_proxy_port_for_instance w;
          s1 = print_line (status_desired_state (w_get_matching_appids w) job_config) s;
          s2 = print_line
                 (status_marathon_job service instance app_id normal_instance_count
                    (if w_is_app_id_running w app_id then Some (w_get_app w app_id) else None)) s1
      in case status_marathon_job_verbose (w_str_datetime w) (w_strftime_minute w)
                (w_naturaltime w) (w_get_app w) (w_get_matching_appids w) of
           Inl e \<Rightarrow> (Raised e, s2)
         | Inr (tasks, out) \<Rightarrow>
             (let s3 = (if verbose then print_line out s2 else s2);
                  s4 = print_line
                         (status_mesos_tasks (w_get_running_tasks_from_active_frameworks w)
                            normal_instance_count) s3
              in case (if verbose then
                         (case status_mesos_tasks_verbose (w_float w) (w_escape_chars w) (w_strftime_minute w)
                                 (w_naturaltime w) (w_current_time w)
                                 (w_get_running_tasks_from_active_frameworks w)
                                 (w_get_non_running_tasks_from_active_frameworks w) of
                            Inl e \<Rightarrow> Inl e
                          | Inr t \<Rightarrow> Inr (print_line t s4))
                       else Inr s4) of
                   Inl e \<Rightarrow> (Raised e, s4)
                 | Inr s5 \<Rightarrow>
                     (case proxy_port of
                        None \<Rightarrow> (Returned 0, s5)
                      | Some port \<Rightarrow>
                          (case status_smartstack_backends (w_get_backends w) (w_naturaltime_delta w)
                                  (w_read_namespace_for_service_instance w)
                                  (w_get_mesos_slaves_grouped_by_attribute w)
                                  service instance tasks normal_smartstack_count verbose of
                             Inl e \<Rightarrow> (Raised e, s5)
                           | Inr t \<Rightarrow> (Returned 0, print_line t s5)))))"

text \<open>
  \<^verbatim>\<open>perform_command\<close>. The \<^verbatim>\<open>except\<close> clause takes \<^verbatim>\<open>NoDockerImageError\<close> only. The
  configuration directory is an argument of the loaders, whose answers are in the world.
\<close>

definition perform_command ::
  "'f world \<Rightarrow> (string \<Rightarrow> int \<Rightarrow> bool \<Rightarrow> 'r) \<Rightarrow> string \<Rightarrow> string \<Rightarrow> string \<Rightarrow> string \<Rightarrow> bool \<Rightarrow> state
     \<Rightarrow> outcome \<times> state" where
  "perform_command w client command service instance cluster verbose s =
     (let job_config = w_load_marathon_service_config w
      in case w_create_complete_config_id w of
           Inl e \<Rightarrow>
             (if e = NoDockerImageError then
                (let job_name = compose_job_id service instance
                 in (Returned 1,
                     print_line
                       [Raw (''Docker image for '' @ job_name
                             @ '' not in deployments.json. Exiting. Has Jenkins deployed it?'')] s))
              else (Raised e, s))
         | Inr app_id \<Rightarrow>
             (let normal_instance_count = get_instances job_config
              in if command = ''start'' then
                   (Returned 0,
                    start_marathon_job service instance app_id normal_instance_count client cluster s)
                 else if command = ''stop'' then
                   (Returned 0, stop_marathon_job service instance app_id client cluster s)
                 else if command = ''restart'' then
                   (Returned 0,
                    restart_marathon_job service instance app_id normal_instance_count client cluster s)
                 else if command = ''status'' then
                   status_command w service instance cluster verbose app_id s
                 else
                   (Raised (NotImplementedError (''Command '' @ command @ '' is not implemented!'')),
                    s)))"

subsection \<open>Reading the results\<close>

text \<open>The backends, and the tasks, that are present in a list of matched pairs.\<close>

definition pair_backends :: "matched_pair list \<Rightarrow> backend list" where
  "pair_backends ps = List.map_filter fst ps"

definition pair_tasks :: "matched_pair list \<Rightarrow> marathon_task list" where
  "pair_tasks ps = List.map_filter snd ps"

text \<open>The scale calls of a trace.\<close>

definition scale_calls :: "event list \<Rightarrow> event list" where
  "scale_calls es = filter (\<lambda>e. case e of Scale_app a n f \<Rightarrow> True | _ \<Rightarrow> False) es"




text \<open>
  What the loop body of \<^verbatim>\<open>pretty_print_smartstack_backends_for_locations\<close> computes for one
  location: \<^verbatim>\<open>running_count\<close>, the line of the location, and the backend rows of the verbose
  mode.
\<close>

definition location_up_count ::
  "(string \<Rightarrow> string \<Rightarrow> backend list) \<Rightarrow> string \<Rightarrow> marathon_task list \<Rightarrow> string \<times> string list
     \<Rightarrow> int" where
  "location_up_count get_backends service_instance tasks loc =
     int (length (filter (\<lambda>(b, t). case b of None \<Rightarrow> False | Some b' \<Rightarrow> backend_is_up b')
                    (match_backends_and_tasks
                       (sort_backends (get_backends service_instance (hd (snd loc)))) tasks)))"

definition location_line ::
  "(string \<Rightarrow> string \<Rightarrow> backend list) \<Rightarrow> string \<Rightarrow> marathon_task list \<Rightarrow> int
     \<Rightarrow> string \<times> string list \<Rightarrow> ctext" where
  "location_line get_backends service_instance tasks expected_count_per_location loc =
     Raw (''    '' @ fst loc @ '' - '')
     # haproxy_backend_report expected_count_per_location
         (location_up_count get_backends service_instance tasks loc)"

definition location_detail ::
  "(int \<Rightarrow> string) \<Rightarrow> (string \<Rightarrow> string \<Rightarrow> backend list) \<Rightarrow> string \<Rightarrow> marathon_task list
     \<Rightarrow> string \<times> string list \<Rightarrow> ctext list" where
  "location_detail naturaltime_delta get_backends service_instance tasks loc =
     concat (map (\<lambda>(b, t). case b of
                     None \<Rightarrow> []
                   | Some b' \<Rightarrow> [pretty_print_haproxy_backend naturaltime_delta b' (t \<noteq> None)])
               (match_backends_and_tasks
                  (sort_backends (get_backends service_instance (hd (snd loc)))) tasks))"

text \<open>
  Whether the reports of the \<^verbatim>\<open>status\<close> branch that can raise all return: the Marathon task
  table (built in the quiet mode too), the Mesos task table in the verbose mode, and the
  SmartStack report when the instance has a proxy port.
\<close>

definition reports_return :: "'f world \<Rightarrow> string \<Rightarrow> string \<Rightarrow> bool \<Rightarrow> bool" where
  "reports_return w service instance verbose =
     (case status_marathon_job_verbose (w_str_datetime w) (w_strftime_minute w) (w_naturaltime w)
             (w_get_app w) (w_get_matching_appids w) of
        Inl e \<Rightarrow> False
      | Inr (tasks, out) \<Rightarrow>
          (if verbose then
             (case status_mesos_tasks_verbose (w_float w) (w_escape_chars w) (w_strftime_minute w)
                     (w_naturaltime w) (w_current_time w)
                     (w_get_running_tasks_from_active_frameworks w)
                     (w_get_non_running_tasks_from_active_frameworks w) of
                Inl e \<Rightarrow> False | Inr t \<Rightarrow> True)
           else True)
          \<and> (case w_get_proxy_port_for_instance w of
                None \<Rightarrow> True
              | Some port \<Rightarrow>
                  (case status_smartstack_backends (w_get_backends w) (w_naturaltime_delta w)
                          (w_read_namespace_for_service_instance w)
                          (w_get_mesos_slaves_grouped_by_attribute w)
                          service instance tasks
                          (w_get_expected_instance_count_for_namespace w) verbose of
                     Inl e \<Rightarrow> False | Inr t \<Rightarrow> True)))"

subsection \<open>Example data\<close>

text \<open>A haproxy row, a Marathon task on one port, and a running Mesos task.\<close>

definition backend_row :: "string \<Rightarrow> string \<Rightarrow> backend" where
  "backend_row name st =
     \<lparr>svname = name, status = st, check_status = ''L7OK'', check_code = ''200'',
      check_duration = ''2'', lastchg = 100\<rparr>"

definition marathon_task_at :: "string \<Rightarrow> string \<Rightarrow> int \<Rightarrow> marathon_task" where
  "marathon_task_at tid host port =
     \<lparr>mt_id = tid, mt_host = Some host, mt_ports = [port], mt_staged_at = 0\<rparr>"


text \<open>
  Numbers for the examples: exact arithmetic on rationals, shown with one decimal digit. On
  the values of the examples the floating-point operations give the same results.
\<close>

definition str_one_decimal :: "rat \<Rightarrow> string" where
  "str_one_decimal x =
     (let t = round (x * 10)
      in (if t < 0 then ''-'' else []) @ str_nat (nat \<bar>t\<bar> div 10) @ ''.'' @ [digit (nat \<bar>t\<bar>)])"

definition exact_numbers :: "rat float_ops" where
  "exact_numbers =
     \<lparr>fl_of_int = of_int, fl_tenth = 1 / 10,
      fl_add = (\<lambda>x y. x + y), fl_sub = (\<lambda>x y. x - y), fl_mul = (\<lambda>x y. x * y),
      fl_div = (\<lambda>x y. x / y),
      fl_round = (\<lambda>x. of_int (round x)), fl_round1 = (\<lambda>x. of_int (round (x * 10)) / 10),
      fl_eq = (\<lambda>x y. x = y), fl_gt = (\<lambda>x y. x > y),
      fl_str = str_one_decimal, fl_fromtimestamp = (\<lambda>x. x)\<rparr>"

text \<open>
  A synapse host that reports no backend, a Marathon client that answers nothing, and a
  rendering of time spans.
\<close>

definition no_backends :: "string \<Rightarrow> string \<Rightarrow> backend list" where
  "no_backends service_instance synapse_host = []"

definition client_example :: "string \<Rightarrow> int \<Rightarrow> bool \<Rightarrow> unit" where
  "client_example app_id instances force = ()"

definition naturaltime_example :: "int \<Rightarrow> string" where
  "naturaltime_example seconds = ''a minute ago''"

text \<open>
  A world with one matching app that wants four instances and runs four, no Mesos slave
  grouped by the discovery attribute, and a proxy port.
\<close>

definition world_example :: "exn + string \<Rightarrow> marathon_task list \<Rightarrow> rat world" where
  "world_example cfg app_task_list =
     \<lparr>w_create_complete_config_id = cfg,
      w_load_marathon_service_config =
        \<lparr>get_bounce_method = ''crossover'', get_desired_state_human = [Raw ''Started''],
         get_instances = 4\<rparr>,
      w_get_expected_instance_count_for_namespace = 4,
      w_get_proxy_port_for_instance = Some 20001,
      w_get_matching_appids = [''svc.main.git1.config1''],
      w_is_app_id_running = (\<lambda>a. a = ''svc.main.git1.config1''),
      w_get_app =
        (\<lambda>a. \<lparr>ma_id = a, ma_version = 0, tasks_running = 4, deployments = [],
               app_tasks = app_task_list\<rparr>),
      w_get_running_tasks_from_active_frameworks = [],
      w_get_non_running_tasks_from_active_frameworks = [],
      w_read_namespace_for_service_instance = ''main'',
      w_get_mesos_slaves_grouped_by_attribute = [],
      w_get_backends = no_backends,
      w_current_time = 1100,
      w_naturaltime = (\<lambda>t. ''a minute ago''),
      w_naturaltime_delta = naturaltime_example,
      w_str_datetime = (\<lambda>t. ''2015-09-01 12:00:00''),
      w_strftime_minute = (\<lambda>t. ''2015-09-01T12:00''),
      w_escape_chars = (\<lambda>c. 9),
      w_float = exact_numbers\<rparr>"

section \<open>Properties\<close>

subsection \<open>Auxiliary facts\<close>

lemma paint_inject [simp]: "(paint c s = paint c' s') = (c = c' \<and> s = s')"
  by (auto simp: paint_def)

lemma fmt_d_examples:
  "fmt_d 0 = ''0''" "fmt_d 1 = ''1''" "fmt_d 2 = ''2''" "fmt_d 3 = ''3''" "fmt_d 4 = ''4''" "fmt_d 5 = ''5''"
  "fmt_d 6 = ''6''" "fmt_d 8 = ''8''" "fmt_d 10 = ''10''" "fmt_d 30 = ''30''" "fmt_d 38 = ''38''"
  "fmt_d 50 = ''50''" "fmt_d 60 = ''60''" "fmt_d 100 = ''100''" "fmt_d 199 = ''199''"
  "fmt_d 400 = ''400''"
  "fmt_d 31015 = ''31015''" "fmt_d 31017 = ''31017''" "fmt_d (- 12) = ''-12''"
  by (simp_all add: fmt_d_def str_nat.simps digit_def)

text \<open>
  \<^verbatim>\<open>haproxy_backend_report\<close> in terms of what \<^verbatim>\<open>is_under_replicated\<close> answers, whatever that
  is.
\<close>

lemma haproxy_backend_report_eq:
  "haproxy_backend_report n up =
     (if fst (is_under_replicated up n 50) then
        [paint Red ''Critical'', Raw '' - in haproxy with '',
         paint Red (''('' @ fmt_d up @ ''/'' @ fmt_d n @ '', ''
                    @ fmt_d (snd (is_under_replicated up n 50)) @ ''%)''),
         Raw '' total backends '', paint Bold ''UP'', Raw '' in this namespace.'']
      else
        [paint Green ''Healthy'', Raw '' - in haproxy with '',
         paint Green (''('' @ fmt_d up @ ''/'' @ fmt_d n @ '')''),
         Raw '' total backends '', paint Bold ''UP'', Raw '' in this namespace.''])"
  by (simp add: haproxy_backend_report_def Let_def fmt_count_def split: prod.splits)

text \<open>
  The loop of \<^verbatim>\<open>pretty_print_smartstack_backends_for_locations\<close> when every location has a
  host.
\<close>

lemma location_lines_eq:
  "snd loc \<noteq> [] \<Longrightarrow>
   location_lines gb nt si tasks per verbose loc
     = Inr (location_line gb si tasks per loc
            # (if verbose then location_detail nt gb si tasks loc else []))"
  by (cases loc; cases "snd loc")
     (auto simp: location_lines_def location_line_def location_up_count_def location_detail_def
        Let_def)

lemma locations_loop_eq:
  "\<forall>loc \<in> set locs. snd loc \<noteq> [] \<Longrightarrow>
   locations_loop (location_lines gb nt si tasks per verbose) locs
     = Inr (concat (map (\<lambda>loc. location_line gb si tasks per loc
                                # (if verbose then location_detail nt gb si tasks loc else []))
                      locs))"
  by (induction locs) (simp_all add: location_lines_eq)

lemma pretty_print_locations_eq:
  assumes "locations \<noteq> []" "\<forall>loc \<in> set locations. snd loc \<noteq> []"
  shows "pretty_print_smartstack_backends_for_locations gb nt si tasks locations expected_count
           verbose
         = Inr (concat
                  (map (\<lambda>loc. location_line gb si tasks
                                  (expected_count div int (length locations)) loc
                               # (if verbose then location_detail nt gb si tasks loc else []))
                     (sort_key fst locations)))"
proof -
  have "\<forall>loc \<in> set (sort_key fst locations). snd loc \<noteq> []"
    using assms(2) by simp
  then show ?thesis
    using assms(1)
      locations_loop_eq [of "sort_key fst locations" gb nt si tasks
        "expected_count div int (length locations)" verbose]
    by (simp add: pretty_print_smartstack_backends_for_locations_def Let_def)
qed

subsection \<open>Task state classifier\<close>

text \<open>
  C1 (counterexample). With no running task and a desired count of zero the classifier
  answers Healthy, not Critical: the comparison \<^verbatim>\<open>count >= normal_instance_count\<close> comes first,
  in \<^verbatim>\<open>status_mesos_tasks\<close> and in \<^verbatim>\<open>status_marathon_job\<close> alike. The piece at index 1 of
  either line is the status word.
\<close>

theorem task_state_tie_counterexample:
  "status_mesos_tasks ([] :: rat mesos_task list) 0 ! 1 = paint Green ''Healthy''
   \<and> status_mesos_tasks ([] :: rat mesos_task list) 0 ! 1 \<noteq> paint Red ''Critical''
   \<and> status_marathon_job ''svc'' ''main'' ''svc.main.git1.config1'' 0
        (Some \<lparr>ma_id = ''svc.main.git1.config1'', ma_version = 0, tasks_running = 0,
               deployments = [], app_tasks = []\<rparr>) ! 1 = paint Green ''Healthy''"
  by (simp add: status_mesos_tasks_def status_marathon_job_def)

text \<open>
  C1 (amended). For every running count and desired count the status word is Healthy exactly
  when the running count is at least the desired count (the tie at zero included), Critical
  exactly when the running count is zero and the desired count is positive, and Warning
  exactly when the running count is positive and below the desired count. The three
  conditions exclude each other and cover every pair. For \<^verbatim>\<open>status_marathon_job\<close> this is the
  branch of an app that is running in Marathon, with a running count that is not negative.
\<close>

theorem task_state_partition:
  "0 \<le> tasks_running a \<Longrightarrow>
   (status_mesos_tasks ts n ! 1 = paint Green ''Healthy'') = (n \<le> int (length ts))
   \<and> (status_mesos_tasks ts n ! 1 = paint Red ''Critical'') = (length ts = 0 \<and> 0 < n)
   \<and> (status_mesos_tasks ts n ! 1 = paint Yellow ''Warning'') = (0 < length ts \<and> int (length ts) < n)
   \<and> (status_marathon_job service instance app_id n (Some a) ! 1 = paint Green ''Healthy'')
        = (n \<le> tasks_running a)
   \<and> (status_marathon_job service instance app_id n (Some a) ! 1 = paint Yellow ''Critical'')
        = (tasks_running a = 0 \<and> 0 < n)
   \<and> (status_marathon_job service instance app_id n (Some a) ! 1 = paint Yellow ''Warning'')
        = (0 < tasks_running a \<and> tasks_running a < n)"
  by (auto simp: status_mesos_tasks_def status_marathon_job_def Let_def)

theorem task_state_partition_witness:
  "(status_mesos_tasks [''t1'', ''t2''] 4 ! 1 = paint Yellow ''Warning'')
   \<and> (status_mesos_tasks [''t1'', ''t2''] 4 ! 1 \<noteq> paint Green ''Healthy'')
   \<and> (status_mesos_tasks [''t1'', ''t2''] 4 ! 1 \<noteq> paint Red ''Critical'')
   \<and> (status_marathon_job ''svc'' ''main'' ''svc.main.git1.config1'' 4
         (Some \<lparr>ma_id = ''svc.main.git1.config1'', ma_version = 0, tasks_running = 0,
                deployments = [], app_tasks = []\<rparr>) ! 1 = paint Yellow ''Critical'')"
  using task_state_partition
    [of "\<lparr>ma_id = ''svc.main.git1.config1'', ma_version = 0, tasks_running = 0,
          deployments = [], app_tasks = []\<rparr>"
        "[''t1'', ''t2'']" 4 "''svc''" "''main''" "''svc.main.git1.config1''"]
  by simp

subsection \<open>Instance count resolver\<close>

text \<open>
  C2. The number of matching apps decides the phase: none is Stopped, one is Running, more
  than one is Bouncing with the name of the bounce method. The count is the length of a list,
  so the last branch of the chain, Unknown, is never taken; nor is it for any integer that is
  not negative.
\<close>

theorem bouncing_status_by_count:
  "(length apps = 0 \<longrightarrow> get_bouncing_status apps jc = paint Red ''Stopped'')
   \<and> (length apps = 1 \<longrightarrow> get_bouncing_status apps jc = paint Green ''Running'')
   \<and> (length apps > 1 \<longrightarrow>
        get_bouncing_status apps jc = paint Yellow (''Bouncing ('' @ get_bounce_method jc @ '')''))
   \<and> (0 \<le> n \<longrightarrow>
        bouncing_status_of_count n m
          = (if n = 0 then paint Red ''Stopped''
             else if n = 1 then paint Green ''Running''
             else paint Yellow (''Bouncing ('' @ m @ '')'')))
   \<and> get_bouncing_status apps jc
        \<noteq> paint Red (''Unknown (count: '' @ fmt_d (int (length apps)) @ '')'')"
proof -
  have count: "length apps = 0 \<or> length apps = 1 \<or> length apps > 1"
    by arith
  show ?thesis
    using count
    by (auto simp: get_bouncing_status_def bouncing_status_of_count_def Let_def)
qed

theorem bouncing_status_by_count_witness:
  "get_bouncing_status []
      \<lparr>get_bounce_method = ''crossover'', get_desired_state_human = [Raw ''Started''],
       get_instances = 3\<rparr>
     = paint Red ''Stopped''
   \<and> get_bouncing_status [''a'']
      \<lparr>get_bounce_method = ''crossover'', get_desired_state_human = [Raw ''Started''],
       get_instances = 3\<rparr>
     = paint Green ''Running''
   \<and> get_bouncing_status [''a'', ''b'']
      \<lparr>get_bounce_method = ''crossover'', get_desired_state_human = [Raw ''Started''],
       get_instances = 3\<rparr>
     = paint Yellow ''Bouncing (crossover)''
   \<and> bouncing_status_of_count 2 ''crossover'' = paint Yellow ''Bouncing (crossover)''"
  using
    bouncing_status_by_count
      [of "[]" "\<lparr>get_bounce_method = ''crossover'', get_desired_state_human = [Raw ''Started''],
                 get_instances = 3\<rparr>" 2 "''crossover''"]
    bouncing_status_by_count
      [of "[''a'']" "\<lparr>get_bounce_method = ''crossover'', get_desired_state_human = [Raw ''Started''],
                      get_instances = 3\<rparr>" 2 "''crossover''"]
    bouncing_status_by_count
      [of "[''a'', ''b'']" "\<lparr>get_bounce_method = ''crossover'',
                             get_desired_state_human = [Raw ''Started''], get_instances = 3\<rparr>"
          2 "''crossover''"]
  by simp

subsection \<open>Replication health classifier\<close>

lemma ratio_below_threshold:
  assumes "0 < (expected::int)"
  shows "(round (of_int up / of_int expected * 100 :: rat) < 50) = (200 * up < 99 * expected)"
proof -
  have pos: "(0::rat) < of_int expected"
    using assms by simp
  have "(round (of_int up / of_int expected * 100 :: rat) < 50)
        = ((of_int up / of_int expected * 100 + 1 / 2 :: rat) < 50)"
    using floor_less_iff [of "of_int up / of_int expected * 100 + 1 / 2 :: rat" 50]
    by (simp add: round_def)
  also have "\<dots> = ((of_int up * 100 :: rat) / of_int expected < 99 / 2)"
    by auto
  also have "\<dots> = ((of_int up * 100 :: rat) < 99 / 2 * of_int expected)"
    using pos by (simp only: pos_divide_less_eq)
  also have "\<dots> = ((of_int (200 * up) :: rat) < of_int (99 * expected))"
    by auto
  also have "\<dots> = (200 * up < 99 * expected)"
    by (simp only: of_int_less_iff)
  finally show ?thesis .
qed

text \<open>
  C3. For a positive expected count the replication ratio is the up count over the expected
  count times 100, rounded to an integer: the nearest one, at most one half away from the
  exact quotient. The report is Critical exactly when this integer is below 50, which is when
  200 times the up count is below 99 times the expected count, and then it shows
  \<^verbatim>\<open>(up/expected, ratio%)\<close>; otherwise it is Healthy and shows \<^verbatim>\<open>(up/expected)\<close>.
\<close>

theorem replication_health:
  assumes "0 < expected"
  shows "snd (is_under_replicated up expected 50)
           = round (of_int up / of_int expected * 100 :: rat)
    \<and> \<bar>of_int (snd (is_under_replicated up expected 50))
          - (of_int up / of_int expected * 100 :: rat)\<bar> \<le> 1 / 2
    \<and> fst (is_under_replicated up expected 50) = (snd (is_under_replicated up expected 50) < 50)
    \<and> fst (is_under_replicated up expected 50) = (200 * up < 99 * expected)
    \<and> haproxy_backend_report expected up =
          (if snd (is_under_replicated up expected 50) < 50 then
             [paint Red ''Critical'', Raw '' - in haproxy with '',
              paint Red (''('' @ fmt_d up @ ''/'' @ fmt_d expected @ '', ''
                         @ fmt_d (snd (is_under_replicated up expected 50)) @ ''%)''),
              Raw '' total backends '', paint Bold ''UP'', Raw '' in this namespace.'']
           else
             [paint Green ''Healthy'', Raw '' - in haproxy with '',
              paint Green (''('' @ fmt_d up @ ''/'' @ fmt_d expected @ '')''),
              Raw '' total backends '', paint Bold ''UP'', Raw '' in this namespace.''])"
proof -
  have ne: "expected \<noteq> 0"
    using assms by simp
  have r: "snd (is_under_replicated up expected 50)
           = round (of_int up / of_int expected * 100 :: rat)"
    using ne by (simp add: is_under_replicated_def Let_def)
  have near: "\<bar>of_int (round (of_int up / of_int expected * 100 :: rat))
          - (of_int up / of_int expected * 100 :: rat)\<bar> \<le> 1 / 2"
    by (rule of_int_round_abs_le)
  have u: "fst (is_under_replicated up expected 50) = (snd (is_under_replicated up expected 50) < 50)"
    using ne by (simp add: is_under_replicated_def Let_def)
  have p: "fst (is_under_replicated up expected 50) = (200 * up < 99 * expected)"
    using u r ratio_below_threshold [OF assms, of up] by simp
  have h: "haproxy_backend_report expected up =
          (if snd (is_under_replicated up expected 50) < 50 then
             [paint Red ''Critical'', Raw '' - in haproxy with '',
              paint Red (''('' @ fmt_d up @ ''/'' @ fmt_d expected @ '', ''
                         @ fmt_d (snd (is_under_replicated up expected 50)) @ ''%)''),
              Raw '' total backends '', paint Bold ''UP'', Raw '' in this namespace.'']
           else
             [paint Green ''Healthy'', Raw '' - in haproxy with '',
              paint Green (''('' @ fmt_d up @ ''/'' @ fmt_d expected @ '')''),
              Raw '' total backends '', paint Bold ''UP'', Raw '' in this namespace.''])"
    using haproxy_backend_report_eq [of expected up] u by simp
  show ?thesis
    using r near u p h by simp
qed

lemma ratio_examples:
  "round (3 / 10 * 100 :: rat) = 30" "round (6 / 10 * 100 :: rat) = 60"
  "round (75 / 2 :: rat) = 38" "round (199 / 4 :: rat) = 50"
  by code_simp+

theorem replication_health_witness:
  "haproxy_backend_report 10 3 =
     [paint Red ''Critical'', Raw '' - in haproxy with '', paint Red ''(3/10, 30%)'',
      Raw '' total backends '', paint Bold ''UP'', Raw '' in this namespace.'']
   \<and> haproxy_backend_report 10 6 =
     [paint Green ''Healthy'', Raw '' - in haproxy with '', paint Green ''(6/10)'',
      Raw '' total backends '', paint Bold ''UP'', Raw '' in this namespace.'']
   \<and> haproxy_backend_report 8 3 =
     [paint Red ''Critical'', Raw '' - in haproxy with '', paint Red ''(3/8, 38%)'',
      Raw '' total backends '', paint Bold ''UP'', Raw '' in this namespace.'']
   \<and> haproxy_backend_report 400 199 =
     [paint Green ''Healthy'', Raw '' - in haproxy with '', paint Green ''(199/400)'',
      Raw '' total backends '', paint Bold ''UP'', Raw '' in this namespace.'']
   \<and> snd (is_under_replicated 3 10 50) = 30
   \<and> snd (is_under_replicated 6 10 50) = 60"
  using replication_health [of 10 3] replication_health [of 10 6]
    replication_health [of 8 3] replication_health [of 400 199]
  by (simp add: fmt_d_examples ratio_examples)

subsection \<open>Backend-task matcher\<close>

lemma take_first_match_mset:
  "take_first_match b ts = Some (t, rest) \<Longrightarrow> mset ts = add_mset t (mset rest)"
  by (induction ts arbitrary: t rest) (auto split: if_splits option.splits)

lemma take_first_match_matches:
  "take_first_match b ts = Some (t, rest) \<Longrightarrow> endpoint_matches b t"
  by (induction ts arbitrary: t rest) (auto split: if_splits option.splits)

lemma take_first_match_None:
  "take_first_match b ts = None \<Longrightarrow> \<forall>t \<in> set ts. \<not> endpoint_matches b t"
  by (induction ts) (auto split: if_splits option.splits)

lemma pair_backends_unmatched [simp]: "pair_backends (map (\<lambda>t. (None, Some t)) ts) = []"
  by (induction ts) (simp_all add: pair_backends_def List.map_filter_simps)

lemma pair_tasks_unmatched [simp]: "pair_tasks (map (\<lambda>t. (None, Some t)) ts) = ts"
  by (induction ts) (simp_all add: pair_tasks_def List.map_filter_simps)

lemma pair_backends_match: "pair_backends (match_backends_and_tasks bs ts) = bs"
proof (induction bs arbitrary: ts)
  case Nil
  show ?case by simp
next
  case (Cons b bs)
  show ?case
  proof (cases "take_first_match b ts")
    case None
    then show ?thesis
      using Cons.IH [of ts] by (simp add: pair_backends_def List.map_filter_simps)
  next
    case (Some m)
    obtain t rest where m: "m = (t, rest)"
      by (cases m)
    show ?thesis
      using Some m Cons.IH [of rest] by (simp add: pair_backends_def List.map_filter_simps)
  qed
qed

lemma pair_tasks_match: "mset (pair_tasks (match_backends_and_tasks bs ts)) = mset ts"
proof (induction bs arbitrary: ts)
  case Nil
  show ?case by simp
next
  case (Cons b bs)
  show ?case
  proof (cases "take_first_match b ts")
    case None
    then show ?thesis
      using Cons.IH [of ts] by (simp add: pair_tasks_def List.map_filter_simps)
  next
    case (Some m)
    obtain t rest where m: "m = (t, rest)"
      by (cases m)
    show ?thesis
      using Some m Cons.IH [of rest] take_first_match_mset [of b ts t rest]
      by (simp add: pair_tasks_def List.map_filter_simps)
  qed
qed

lemma match_one_side:
  "list_all (\<lambda>p. fst p \<noteq> None \<or> snd p \<noteq> None) (match_backends_and_tasks bs ts)"
proof (induction bs arbitrary: ts)
  case Nil
  show ?case by (simp add: list_all_iff)
next
  case (Cons b bs)
  show ?case
    using Cons.IH by (cases "take_first_match b ts") auto
qed

lemma matched_pairs_match:
  "(Some b, Some t) \<in> set (match_backends_and_tasks bs ts) \<Longrightarrow> endpoint_matches b t"
proof (induction bs arbitrary: ts)
  case Nil
  then show ?case by auto
next
  case (Cons a bs)
  show ?case
  proof (cases "take_first_match a ts")
    case None
    then show ?thesis
      using Cons.prems Cons.IH [of ts] by auto
  next
    case (Some m)
    obtain t' rest where m: "m = (t', rest)"
      by (cases m)
    show ?thesis
      using Some m Cons.prems Cons.IH [of rest] take_first_match_matches [of a ts t' rest]
      by auto
  qed
qed

lemma length_map_filter:
  "length (List.map_filter f xs) = length (filter (\<lambda>x. f x \<noteq> None) xs)"
  by (simp add: List.map_filter_def)

text \<open>
  C5. Whatever the backends and the tasks, the pairs hold every backend once, in the order
  given, and every task once (the tasks of the pairs are the given tasks up to order); so the
  pairs with a backend are as many as the backends and the pairs with a task as many as the
  tasks. No pair is empty on both sides.
\<close>

theorem matcher_every_backend_and_task_once:
  "pair_backends (match_backends_and_tasks bs ts) = bs
   \<and> mset (pair_tasks (match_backends_and_tasks bs ts)) = mset ts
   \<and> length (filter (\<lambda>p. fst p \<noteq> None) (match_backends_and_tasks bs ts)) = length bs
   \<and> length (filter (\<lambda>p. snd p \<noteq> None) (match_backends_and_tasks bs ts)) = length ts
   \<and> list_all (\<lambda>p. fst p \<noteq> None \<or> snd p \<noteq> None) (match_backends_and_tasks bs ts)"
proof -
  have b: "pair_backends (match_backends_and_tasks bs ts) = bs"
    by (rule pair_backends_match)
  have t: "mset (pair_tasks (match_backends_and_tasks bs ts)) = mset ts"
    by (rule pair_tasks_match)
  have lb: "length (filter (\<lambda>p. fst p \<noteq> None) (match_backends_and_tasks bs ts)) = length bs"
    using arg_cong [OF b, of length] by (simp add: pair_backends_def length_map_filter)
  have lt: "length (filter (\<lambda>p. snd p \<noteq> None) (match_backends_and_tasks bs ts)) = length ts"
    using arg_cong [OF t, of size] by (simp add: pair_tasks_def length_map_filter)
  show ?thesis
    using b t lb lt match_one_side by blast
qed

theorem matcher_every_backend_and_task_once_witness:
  "match_backends_and_tasks
      [backend_row ''10.0.0.1:31015_host1'' ''UP'', backend_row ''10.0.0.2:31016_host2'' ''DOWN'']
      [marathon_task_at ''t2'' ''host3.example.com'' 31017,
       marathon_task_at ''t1'' ''host1.example.com'' 31015]
     = [(Some (backend_row ''10.0.0.1:31015_host1'' ''UP''),
         Some (marathon_task_at ''t1'' ''host1.example.com'' 31015)),
        (Some (backend_row ''10.0.0.2:31016_host2'' ''DOWN''), None),
        (None, Some (marathon_task_at ''t2'' ''host3.example.com'' 31017))]
   \<and> pair_backends (match_backends_and_tasks
      [backend_row ''10.0.0.1:31015_host1'' ''UP'', backend_row ''10.0.0.2:31016_host2'' ''DOWN'']
      [marathon_task_at ''t2'' ''host3.example.com'' 31017,
       marathon_task_at ''t1'' ''host1.example.com'' 31015])
     = [backend_row ''10.0.0.1:31015_host1'' ''UP'', backend_row ''10.0.0.2:31016_host2'' ''DOWN'']"
  using matcher_every_backend_and_task_once
    [of "[backend_row ''10.0.0.1:31015_host1'' ''UP'', backend_row ''10.0.0.2:31016_host2'' ''DOWN'']"
        "[marathon_task_at ''t2'' ''host3.example.com'' 31017,
          marathon_task_at ''t1'' ''host1.example.com'' 31015]"]
  by (simp add: endpoint_matches_def task_endpoint_def backend_endpoint_def backend_row_def
      marathon_task_at_def fmt_d_examples)

subsection \<open>Backend sorting\<close>

lemma sorted_reverse_desc: "sorted (rev (map key (sorted_reverse key xs)))"
  by (simp add: sorted_reverse_def rev_map [symmetric])

lemma sorted_reverse_stable:
  "filter (\<lambda>x. key x = k) (sorted_reverse key xs) = filter (\<lambda>x. key x = k) xs"
proof -
  have "filter (\<lambda>x. key x = k) (sorted_reverse key xs)
        = rev (filter (\<lambda>x. key x = k) (sort_key key (rev xs)))"
    by (simp add: sorted_reverse_def rev_filter)
  also have "\<dots> = rev (filter (\<lambda>x. key x = k) (rev xs))"
    by (simp only: sort_key_stable)
  also have "\<dots> = filter (\<lambda>x. key x = k) xs"
    by (simp add: rev_filter)
  finally show ?thesis .
qed

lemma sorted_reverse_mset: "mset (sorted_reverse key xs) = mset xs"
  by (simp add: sorted_reverse_def)

lemma sorted_reverse_nth:
  assumes "i < j" "j < length xs"
  shows "key (sorted_reverse key xs ! j) \<le> key (sorted_reverse key xs ! i)"
proof -
  let ?ys = "sort_key key (rev xs)"
  have len: "length ?ys = length xs"
    by simp
  have s: "sorted (map key ?ys)"
    by simp
  have i: "sorted_reverse key xs ! i = ?ys ! (length xs - Suc i)"
    using assms len by (simp add: sorted_reverse_def rev_nth)
  have j: "sorted_reverse key xs ! j = ?ys ! (length xs - Suc j)"
    using assms len by (simp add: sorted_reverse_def rev_nth)
  have "map key ?ys ! (length xs - Suc j) \<le> map key ?ys ! (length xs - Suc i)"
    using s assms len by (intro sorted_nth_mono) auto
  then show ?thesis
    using i j assms len by simp
qed

text \<open>
  C6 (counterexample). A status string that is greater than \<^verbatim>\<open>UP\<close> in byte order sorts before
  it: haproxy's \<^verbatim>\<open>no check\<close> starts with a lower-case letter, and a backend with that status
  is placed before the backend that is \<^verbatim>\<open>UP\<close>.
\<close>

theorem backends_up_first_counterexample:
  "sort_backends [backend_row ''10.0.0.1:31015_host1'' ''UP'',
                  backend_row ''10.0.0.2:31015_host2'' ''no check'']
   = [backend_row ''10.0.0.2:31015_host2'' ''no check'',
      backend_row ''10.0.0.1:31015_host1'' ''UP'']"
  by (simp add: sort_backends_def sorted_reverse_def backend_row_def)

text \<open>
  C6 (amended). The sort orders the backends by status string, greatest first in byte order,
  and keeps the backends of one status in their original order. So a backend that is \<^verbatim>\<open>UP\<close>
  comes before every backend whose status is smaller than \<^verbatim>\<open>UP\<close>, as \<^verbatim>\<open>MAINT\<close> and \<^verbatim>\<open>DOWN\<close>
  are.
\<close>

theorem backends_sorted_descending_stable:
  "sorted (rev (map status (sort_backends bs)))
   \<and> mset (sort_backends bs) = mset bs
   \<and> length (sort_backends bs) = length bs
   \<and> filter (\<lambda>b. status b = k) (sort_backends bs) = filter (\<lambda>b. status b = k) bs
   \<and> (i < length bs \<and> j < length bs \<and> status (sort_backends bs ! i) = ''UP''
        \<and> status (sort_backends bs ! j) < ''UP'' \<longrightarrow> i < j)
   \<and> ''MAINT'' < ''UP'' \<and> ''DOWN'' < ''UP''"
proof -
  have ord: "i < length bs \<and> j < length bs \<and> status (sort_backends bs ! i) = ''UP''
        \<and> status (sort_backends bs ! j) < ''UP'' \<longrightarrow> i < j"
  proof (intro impI, elim conjE)
    assume a: "i < length bs" "j < length bs" "status (sort_backends bs ! i) = ''UP''"
      "status (sort_backends bs ! j) < ''UP''"
    show "i < j"
    proof (rule ccontr)
      assume "\<not> i < j"
      then have "j < i \<or> j = i"
        by arith
      then show False
      proof
        assume "j < i"
        then have "status (sort_backends bs ! i) \<le> status (sort_backends bs ! j)"
          using sorted_reverse_nth [of j i bs status] a by (simp add: sort_backends_def)
        then show False
          using a by simp
      next
        assume "j = i"
        then show False
          using a by simp
      qed
    qed
  qed
  have len: "length (sort_backends bs) = length bs"
    by (simp add: sort_backends_def sorted_reverse_def)
  show ?thesis
    using ord len sorted_reverse_desc [of status bs] sorted_reverse_stable [of status k bs]
      sorted_reverse_mset [of status bs]
    by (simp add: sort_backends_def)
qed

theorem backends_sorted_descending_stable_witness:
  "sort_backends [backend_row ''a'' ''DOWN'', backend_row ''b'' ''UP'',
                  backend_row ''c'' ''MAINT'', backend_row ''d'' ''UP'']
     = [backend_row ''b'' ''UP'', backend_row ''d'' ''UP'',
        backend_row ''c'' ''MAINT'', backend_row ''a'' ''DOWN'']
   \<and> filter (\<lambda>b. status b = ''UP'')
        (sort_backends [backend_row ''a'' ''DOWN'', backend_row ''b'' ''UP'',
                        backend_row ''c'' ''MAINT'', backend_row ''d'' ''UP''])
     = [backend_row ''b'' ''UP'', backend_row ''d'' ''UP'']
   \<and> (1::nat) < 4 \<and> (2::nat) < 4 \<and> ''MAINT'' < ''UP'' \<and> (1::nat) < 2"
  using backends_sorted_descending_stable
    [of "[backend_row ''a'' ''DOWN'', backend_row ''b'' ''UP'',
          backend_row ''c'' ''MAINT'', backend_row ''d'' ''UP'']" "''UP''" 1 2]
  by (simp add: sort_backends_def sorted_reverse_def backend_row_def)

subsection \<open>State-changing operations\<close>

text \<open>
  C7. Start appends to the trace its audit event and one scale call, to the normal instance
  count with the force flag; stop appends its audit event and one scale call, to zero with
  the force flag; restart is stop and then start on the state that stop left, so its scale
  calls are the call to zero and then the call to the normal count, and the state between
  the two is the one after stop. None of them depends on what the client answers, and none
  prints.
\<close>

theorem scale_operations:
  "events (start_marathon_job service instance app_id n client cluster s)
     = events s
       @ [Log_event service
            [Raw ''EmergencyStart: scaling '', paint Cyan (compose_job_id service instance),
             Raw ('' up to '' @ fmt_d n @ '' instances'')]
            ''deploy'' ''event'' cluster instance,
          Scale_app app_id n True]
   \<and> events (stop_marathon_job service instance app_id client cluster s)
     = events s
       @ [Log_event service
            [Raw ''EmergencyStop: Scaling '', paint Cyan (compose_job_id service instance),
             Raw '' down to 0 instances'']
            ''deploy'' ''event'' cluster instance,
          Scale_app app_id 0 True]
   \<and> restart_marathon_job service instance app_id n client cluster s
     = start_marathon_job service instance app_id n client cluster
         (stop_marathon_job service instance app_id client cluster s)
   \<and> scale_calls (events (start_marathon_job service instance app_id n client cluster s))
     = scale_calls (events s) @ [Scale_app app_id n True]
   \<and> scale_calls (events (stop_marathon_job service instance app_id client cluster s))
     = scale_calls (events s) @ [Scale_app app_id 0 True]
   \<and> scale_calls (events (restart_marathon_job service instance app_id n client cluster s))
     = scale_calls (events s) @ [Scale_app app_id 0 True, Scale_app app_id n True]
   \<and> start_marathon_job service instance app_id n client' cluster s
     = start_marathon_job service instance app_id n client cluster s
   \<and> stop_marathon_job service instance app_id client' cluster s
     = stop_marathon_job service instance app_id client cluster s
   \<and> stdout (restart_marathon_job service instance app_id n client cluster s) = stdout s"
  by (simp add: start_marathon_job_def stop_marathon_job_def restart_marathon_job_def
      log_event_def scale_app_def scale_calls_def Let_def)

theorem scale_operations_witness:
  "scale_calls (events (restart_marathon_job ''svc'' ''main'' ''svc.main.git1.config1'' 3
       client_example ''norcal'' \<lparr>events = [], stdout = []\<rparr>))
     = [Scale_app ''svc.main.git1.config1'' 0 True, Scale_app ''svc.main.git1.config1'' 3 True]
   \<and> events (stop_marathon_job ''svc'' ''main'' ''svc.main.git1.config1''
       client_example ''norcal'' \<lparr>events = [], stdout = []\<rparr>)
     = [Log_event ''svc''
          [Raw ''EmergencyStop: Scaling '', paint Cyan ''svc.main'', Raw '' down to 0 instances'']
          ''deploy'' ''event'' ''norcal'' ''main'',
        Scale_app ''svc.main.git1.config1'' 0 True]"
proof -
  note w = scale_operations
    [of "''svc''" "''main''" "''svc.main.git1.config1''" 3 client_example "''norcal''"
        "\<lparr>events = [], stdout = []\<rparr>" client_example]
  have a: "scale_calls (events (restart_marathon_job ''svc'' ''main'' ''svc.main.git1.config1'' 3
       client_example ''norcal'' \<lparr>events = [], stdout = []\<rparr>))
     = scale_calls (events \<lparr>events = [], stdout = []\<rparr>)
       @ [Scale_app ''svc.main.git1.config1'' 0 True, Scale_app ''svc.main.git1.config1'' 3 True]"
    using w by blast
  have b: "events (stop_marathon_job ''svc'' ''main'' ''svc.main.git1.config1''
       client_example ''norcal'' \<lparr>events = [], stdout = []\<rparr>)
     = events \<lparr>events = [], stdout = []\<rparr>
       @ [Log_event ''svc''
            [Raw ''EmergencyStop: Scaling '', paint Cyan (compose_job_id ''svc'' ''main''),
             Raw '' down to 0 instances'']
            ''deploy'' ''event'' ''norcal'' ''main'',
          Scale_app ''svc.main.git1.config1'' 0 True]"
    using w by blast
  show ?thesis
    using a b by (simp add: scale_calls_def compose_job_id_def)
qed

subsection \<open>Expected count per location\<close>

text \<open>
  C10. With at least one location, the lines of every location are made by the same loop
  body, and the expected count that the body hands to \<^verbatim>\<open>haproxy_backend_report\<close> is the floor
  of the expected count over the number of locations: the line of a location with a host is
  the location's name followed by the report of that floor and the location's count of
  backends up, and the report tests the up count against that floor and shows the floor as
  the denominator. When every location has a host, the output is these lines for the
  locations in the order of their names. The floor times the number of locations is at most
  the expected count and falls short of it by at most the number of locations minus one.
\<close>

theorem expected_count_per_location_floor:
  "locations \<noteq> [] \<Longrightarrow>
   pretty_print_smartstack_backends_for_locations gb nt service_instance tasks locations
       expected_count verbose
     = locations_loop
         (location_lines gb nt service_instance tasks
            (expected_count div int (length locations)) verbose)
         (sort_key fst locations)
   \<and> (snd loc \<noteq> [] \<longrightarrow>
        location_lines gb nt service_instance tasks
            (expected_count div int (length locations)) verbose loc
          = Inr ((Raw (''    '' @ fst loc @ '' - '')
                  # haproxy_backend_report (expected_count div int (length locations))
                      (location_up_count gb service_instance tasks loc))
                 # (if verbose then location_detail nt gb service_instance tasks loc else [])))
   \<and> haproxy_backend_report (expected_count div int (length locations)) up =
        (if fst (is_under_replicated up (expected_count div int (length locations)) 50) then
           [paint Red ''Critical'', Raw '' - in haproxy with '',
            paint Red (''('' @ fmt_d up @ ''/'' @ fmt_d (expected_count div int (length locations))
                       @ '', ''
                       @ fmt_d (snd (is_under_replicated up
                                       (expected_count div int (length locations)) 50))
                       @ ''%)''),
            Raw '' total backends '', paint Bold ''UP'', Raw '' in this namespace.'']
         else
           [paint Green ''Healthy'', Raw '' - in haproxy with '',
            paint Green (''('' @ fmt_d up @ ''/'' @ fmt_d (expected_count div int (length locations))
                         @ '')''),
            Raw '' total backends '', paint Bold ''UP'', Raw '' in this namespace.''])
   \<and> ((\<forall>l \<in> set locations. snd l \<noteq> []) \<longrightarrow>
        pretty_print_smartstack_backends_for_locations gb nt service_instance tasks locations
            expected_count verbose
          = Inr (concat
                   (map (\<lambda>l. (Raw (''    '' @ fst l @ '' - '')
                               # haproxy_backend_report (expected_count div int (length locations))
                                   (location_up_count gb service_instance tasks l))
                              # (if verbose then location_detail nt gb service_instance tasks l
                                 else []))
                      (sort_key fst locations))))
   \<and> expected_count div int (length locations)
        = \<lfloor>(of_int expected_count / of_int (int (length locations)) :: rat)\<rfloor>
   \<and> int (length locations) * (expected_count div int (length locations)) \<le> expected_count
   \<and> expected_count - int (length locations) * (expected_count div int (length locations))
        \<le> int (length locations) - 1"
proof -
  assume ne: "locations \<noteq> []"
  define L where "L = int (length locations)"
  have pos: "0 < L"
    using ne by (simp add: L_def)
  have eq: "expected_count = L * (expected_count div L) + expected_count mod L"
    by simp
  have m0: "0 \<le> expected_count mod L" and m1: "expected_count mod L < L"
    using pos by simp_all
  have le: "L * (expected_count div L) \<le> expected_count"
    using eq m0 by linarith
  have gap: "expected_count - L * (expected_count div L) \<le> L - 1"
    using eq m1 by linarith
  have fl: "expected_count div L = \<lfloor>(of_int expected_count / of_int L :: rat)\<rfloor>"
    by (simp only: floor_divide_of_int_eq)
  have loop: "pretty_print_smartstack_backends_for_locations gb nt service_instance tasks locations
       expected_count verbose
     = locations_loop (location_lines gb nt service_instance tasks (expected_count div L) verbose)
         (sort_key fst locations)"
    using ne by (simp add: pretty_print_smartstack_backends_for_locations_def Let_def L_def)
  have body: "snd loc \<noteq> [] \<longrightarrow>
        location_lines gb nt service_instance tasks (expected_count div L) verbose loc
          = Inr ((Raw (''    '' @ fst loc @ '' - '')
                  # haproxy_backend_report (expected_count div L)
                      (location_up_count gb service_instance tasks loc))
                 # (if verbose then location_detail nt gb service_instance tasks loc else []))"
    using location_lines_eq [of loc gb nt service_instance tasks "expected_count div L" verbose]
    by (simp add: location_line_def)
  have all: "(\<forall>l \<in> set locations. snd l \<noteq> []) \<longrightarrow>
        pretty_print_smartstack_backends_for_locations gb nt service_instance tasks locations
            expected_count verbose
          = Inr (concat
                   (map (\<lambda>l. (Raw (''    '' @ fst l @ '' - '')
                               # haproxy_backend_report (expected_count div L)
                                   (location_up_count gb service_instance tasks l))
                              # (if verbose then location_detail nt gb service_instance tasks l
                                 else []))
                      (sort_key fst locations)))"
  proof
    assume h: "\<forall>l \<in> set locations. snd l \<noteq> []"
    then have "\<forall>l \<in> set (sort_key fst locations). snd l \<noteq> []"
      by simp
    then show "pretty_print_smartstack_backends_for_locations gb nt service_instance tasks locations
            expected_count verbose
          = Inr (concat
                   (map (\<lambda>l. (Raw (''    '' @ fst l @ '' - '')
                               # haproxy_backend_report (expected_count div L)
                                   (location_up_count gb service_instance tasks l))
                              # (if verbose then location_detail nt gb service_instance tasks l
                                 else []))
                      (sort_key fst locations)))"
      using loop locations_loop_eq [of "sort_key fst locations" gb nt service_instance tasks
          "expected_count div L" verbose]
      by (simp add: location_line_def)
  qed
  show ?thesis
    using loop body all fl le gap
      haproxy_backend_report_eq [of "expected_count div L" up]
    unfolding L_def by simp
qed

theorem expected_count_per_location_floor_witness:
  "pretty_print_smartstack_backends_for_locations no_backends naturaltime_example ''svc.main'' []
       [(''rack2'', [''host2'']), (''rack1'', [''host1''])] 5 False
     = Inr [[Raw ''    rack1 - '', paint Red ''Critical'', Raw '' - in haproxy with '',
             paint Red ''(0/2, 0%)'', Raw '' total backends '', paint Bold ''UP'',
             Raw '' in this namespace.''],
            [Raw ''    rack2 - '', paint Red ''Critical'', Raw '' - in haproxy with '',
             paint Red ''(0/2, 0%)'', Raw '' total backends '', paint Bold ''UP'',
             Raw '' in this namespace.'']]
   \<and> haproxy_backend_report 2 1 =
       [paint Green ''Healthy'', Raw '' - in haproxy with '', paint Green ''(1/2)'',
        Raw '' total backends '', paint Bold ''UP'', Raw '' in this namespace.'']
   \<and> (2::int) * 2 \<le> 5 \<and> (5::int) - 2 * 2 \<le> 2 - 1"
proof -
  have ne: "[(''rack2'', [''host2'']), (''rack1'', [''host1''])] \<noteq> []"
    by simp
  have d: "(5::int) div int (length [(''rack2'', [''host2'']), (''rack1'', [''host1''])]) = 2"
    by simp
  note w = expected_count_per_location_floor
    [of "[(''rack2'', [''host2'']), (''rack1'', [''host1''])]" no_backends naturaltime_example
        "''svc.main''" "[]" 5 False "(''rack1'', [''host1''])", OF ne]
  have r0: "haproxy_backend_report 2 0 =
       [paint Red ''Critical'', Raw '' - in haproxy with '', paint Red ''(0/2, 0%)'',
        Raw '' total backends '', paint Bold ''UP'', Raw '' in this namespace.'']"
    using w [of 0, THEN conjunct2, THEN conjunct2, THEN conjunct1]
    by (simp add: is_under_replicated_def fmt_d_examples)
  have r1: "haproxy_backend_report 2 1 =
       [paint Green ''Healthy'', Raw '' - in haproxy with '', paint Green ''(1/2)'',
        Raw '' total backends '', paint Bold ''UP'', Raw '' in this namespace.'']"
    using w [of 1, THEN conjunct2, THEN conjunct2, THEN conjunct1]
    by (simp add: is_under_replicated_def fmt_d_examples)
  have out: "pretty_print_smartstack_backends_for_locations no_backends naturaltime_example
       ''svc.main'' [] [(''rack2'', [''host2'']), (''rack1'', [''host1''])] 5 False
     = Inr [Raw ''    rack1 - '' # haproxy_backend_report 2 0,
            Raw ''    rack2 - '' # haproxy_backend_report 2 0]"
    using w [of 0, THEN conjunct2, THEN conjunct2, THEN conjunct2, THEN conjunct1]
    by (simp add: location_up_count_def sort_backends_def sorted_reverse_def no_backends_def)
  show ?thesis
    using out r0 r1 by simp
qed

subsection \<open>Task telemetry sampler\<close>















subsection \<open>SmartStack report\<close>

lemma location_lines_no_host:
  "snd loc = [] \<Longrightarrow> location_lines gb nt si tasks per verbose loc = Inl IndexError"
  by (cases loc) (simp add: location_lines_def)

lemma locations_loop_no_host:
  "\<exists>loc \<in> set locs. snd loc = [] \<Longrightarrow>
   locations_loop (location_lines gb nt si tasks per verbose) locs = Inl IndexError"
proof (induction locs)
  case Nil
  then show ?case by simp
next
  case (Cons l ls)
  show ?case
  proof (cases "snd l = []")
    case True
    then show ?thesis
      by (simp add: location_lines_no_host)
  next
    case False
    then have "\<exists>loc \<in> set ls. snd loc = []"
      using Cons.prems by auto
    then have "locations_loop (location_lines gb nt si tasks per verbose) ls = Inl IndexError"
      by (rule Cons.IH)
    then show ?thesis
      using False by (simp add: location_lines_eq)
  qed
qed

lemma pretty_print_locations_no_host:
  assumes "locations \<noteq> []" "\<exists>loc \<in> set locations. snd loc = []"
  shows "pretty_print_smartstack_backends_for_locations gb nt si tasks locations expected_count
           verbose = Inl IndexError"
proof -
  have "\<exists>loc \<in> set (sort_key fst locations). snd loc = []"
    using assms(2) by simp
  then show ?thesis
    using assms(1)
      locations_loop_no_host [of "sort_key fst locations" gb nt si tasks
        "expected_count div int (length locations)" verbose]
    by (simp add: pretty_print_smartstack_backends_for_locations_def Let_def)
qed

lemma no_backends_up_count:
  assumes "gb si (hd (snd loc)) = []"
  shows "location_up_count gb si tasks loc = 0" "location_detail nt gb si tasks loc = []"
  using assms
  by (simp_all add: location_up_count_def location_detail_def sort_backends_def
      sorted_reverse_def filter_map o_def)

lemma location_detail_coloured:
  "l \<in> set (location_detail nt gb si tasks loc) \<Longrightarrow> \<exists>c t. l = [Col c t]"
  by (auto simp: location_detail_def pretty_print_haproxy_backend_def color_text_def Let_def
      split: option.splits if_splits)

lemma location_line_length: "length (location_line gb si tasks per loc) = 7"
  by (simp add: location_line_def haproxy_backend_report_eq)

lemma error_line_not_in_locations:
  "[Raw s] \<notin> set (concat (map (\<lambda>loc. location_line gb si tasks per loc
                                       # (if verbose then location_detail nt gb si tasks loc else []))
                            locs))"
proof
  assume "[Raw s] \<in> set (concat (map (\<lambda>loc. location_line gb si tasks per loc
                                       # (if verbose then location_detail nt gb si tasks loc else []))
                            locs))"
  then obtain loc where
    "[Raw s] = location_line gb si tasks per loc
     \<or> [Raw s] \<in> set (location_detail nt gb si tasks loc)"
    by (auto split: if_splits)
  then show False
  proof
    assume "[Raw s] = location_line gb si tasks per loc"
    then have "length [Raw s] = length (location_line gb si tasks per loc)"
      by simp
    then show False
      by (simp add: location_line_length)
  next
    assume "[Raw s] \<in> set (location_detail nt gb si tasks loc)"
    then show False
      using location_detail_coloured [of "[Raw s]" nt gb si tasks loc] by simp
  qed
qed

lemma smartstack_output_locations:
  assumes "unique_attributes \<noteq> []" "\<forall>loc \<in> set unique_attributes. snd loc \<noteq> []"
    "instance = nerve_ns \<or> verbose"
  shows "smartstack_output gb nt nerve_ns unique_attributes service instance tasks
           expected_count verbose
     = Inr ((if instance \<noteq> nerve_ns then
               [[Raw (''Smartstack: N/A - '' @ instance @ '' is announced in the ''),
                 paint Bold nerve_ns, Raw '' namespace.'']]
             else [])
            @ [[Raw ''Smartstack:'']]
            @ (if verbose then
                 [[Raw (''  Haproxy Service Name: '' @ compose_job_id service nerve_ns)],
                  [Raw ''  Backends: Name                      LastCheck           LastChange      Status'']]
               else [])
            @ concat
                (map (\<lambda>loc. location_line gb (compose_job_id service nerve_ns) tasks
                                (expected_count div int (length unique_attributes)) loc
                             # (if verbose
                                then location_detail nt gb (compose_job_id service nerve_ns) tasks loc
                                else []))
                   (sort_key fst unique_attributes)))"
  using assms
    pretty_print_locations_eq [OF assms(1) assms(2), of gb nt "compose_job_id service nerve_ns"
      tasks expected_count verbose]
  by (auto simp: smartstack_output_def Let_def)

text \<open>
  C9 (counterexample). One location whose synapse host reports no backend at all: the report is
  the header and the location's replication-health line for zero backends up, and the line
  that says the instance is not in SmartStack is not printed.
\<close>

theorem smartstack_absent_counterexample:
  "smartstack_output no_backends naturaltime_example ''main'' [(''rack1'', [''host1''])]
       ''svc'' ''main'' [] 4 False
     = Inr [[Raw ''Smartstack:''], Raw ''    rack1 - '' # haproxy_backend_report 4 0]"
  by (simp add: smartstack_output_def pretty_print_smartstack_backends_for_locations_def
      location_lines_def sort_backends_def sorted_reverse_def no_backends_def)

text \<open>
  C9 (amended). The report, case by case. An instance announced in another namespace gets the
  N/A line first, and in the quiet mode nothing else. Otherwise, when the slaves grouped by
  the discovery attribute give no location, the line that the instance is not in SmartStack
  at all follows and ends the report; for an instance announced in its own namespace it is
  the whole report, one line. When there are locations, each with a host, the report is the
  header (in the verbose mode with the two lines of the backend table's heading) followed by
  one replication-health line per location in the order of the location names, each in the
  verbose mode followed by the rows of its backends; the line that the instance is not in
  SmartStack at all is not in the report. When moreover the host of every location reports
  no backend, each location's line reports zero backends up against the expected count per
  location, and there are no backend rows. A location without a host makes the report raise
  \<^verbatim>\<open>IndexError\<close>.
\<close>

theorem smartstack_no_locations:
  "(instance \<noteq> nerve_ns \<and> \<not> verbose \<longrightarrow>
      smartstack_output gb nt nerve_ns unique_attributes service instance tasks expected_count verbose
        = Inr [[Raw (''Smartstack: N/A - '' @ instance @ '' is announced in the ''),
                paint Bold nerve_ns, Raw '' namespace.'']])
   \<and> (unique_attributes = [] \<and> instance \<noteq> nerve_ns \<and> verbose \<longrightarrow>
      smartstack_output gb nt nerve_ns unique_attributes service instance tasks expected_count verbose
        = Inr [[Raw (''Smartstack: N/A - '' @ instance @ '' is announced in the ''),
                paint Bold nerve_ns, Raw '' namespace.''],
               [Raw (''Smartstack: ERROR - '' @ compose_job_id service nerve_ns
                     @ '' is NOT in smartstack at all!'')]])
   \<and> (unique_attributes = [] \<and> instance = nerve_ns \<longrightarrow>
      smartstack_output gb nt nerve_ns unique_attributes service instance tasks expected_count verbose
        = Inr [[Raw (''Smartstack: ERROR - '' @ compose_job_id service nerve_ns
                     @ '' is NOT in smartstack at all!'')]]
      \<and> status_smartstack_backends gb nt nerve_ns unique_attributes service instance tasks
           expected_count verbose
        = Inr [Raw (''Smartstack: ERROR - '' @ compose_job_id service nerve_ns
                    @ '' is NOT in smartstack at all!'')])
   \<and> (unique_attributes \<noteq> [] \<and> (\<forall>loc \<in> set unique_attributes. snd loc \<noteq> [])
        \<and> (instance = nerve_ns \<or> verbose) \<longrightarrow>
      smartstack_output gb nt nerve_ns unique_attributes service instance tasks expected_count verbose
        = Inr ((if instance \<noteq> nerve_ns then
                  [[Raw (''Smartstack: N/A - '' @ instance @ '' is announced in the ''),
                    paint Bold nerve_ns, Raw '' namespace.'']]
                else [])
               @ [[Raw ''Smartstack:'']]
               @ (if verbose then
                    [[Raw (''  Haproxy Service Name: '' @ compose_job_id service nerve_ns)],
                     [Raw ''  Backends: Name                      LastCheck           LastChange      Status'']]
                  else [])
               @ concat
                   (map (\<lambda>loc. (Raw (''    '' @ fst loc @ '' - '')
                                 # haproxy_backend_report
                                     (expected_count div int (length unique_attributes))
                                     (location_up_count gb (compose_job_id service nerve_ns) tasks loc))
                                # (if verbose
                                   then location_detail nt gb (compose_job_id service nerve_ns)
                                          tasks loc
                                   else []))
                      (sort_key fst unique_attributes)))
      \<and> (\<forall>out. smartstack_output gb nt nerve_ns unique_attributes service instance tasks
                  expected_count verbose = Inr out \<longrightarrow>
               [Raw (''Smartstack: ERROR - '' @ compose_job_id service nerve_ns
                     @ '' is NOT in smartstack at all!'')] \<notin> set out))
   \<and> (unique_attributes \<noteq> []
        \<and> (\<forall>loc \<in> set unique_attributes.
              snd loc \<noteq> [] \<and> gb (compose_job_id service nerve_ns) (hd (snd loc)) = [])
        \<and> (instance = nerve_ns \<or> verbose) \<longrightarrow>
      smartstack_output gb nt nerve_ns unique_attributes service instance tasks expected_count verbose
        = Inr ((if instance \<noteq> nerve_ns then
                  [[Raw (''Smartstack: N/A - '' @ instance @ '' is announced in the ''),
                    paint Bold nerve_ns, Raw '' namespace.'']]
                else [])
               @ [[Raw ''Smartstack:'']]
               @ (if verbose then
                    [[Raw (''  Haproxy Service Name: '' @ compose_job_id service nerve_ns)],
                     [Raw ''  Backends: Name                      LastCheck           LastChange      Status'']]
                  else [])
               @ map (\<lambda>loc. Raw (''    '' @ fst loc @ '' - '')
                             # haproxy_backend_report
                                 (expected_count div int (length unique_attributes)) 0)
                   (sort_key fst unique_attributes)))
   \<and> (unique_attributes \<noteq> [] \<and> (\<exists>loc \<in> set unique_attributes. snd loc = [])
        \<and> (instance = nerve_ns \<or> verbose) \<longrightarrow>
      smartstack_output gb nt nerve_ns unique_attributes service instance tasks expected_count verbose
        = Inl IndexError)"
proof (intro conjI impI)
  assume "instance \<noteq> nerve_ns \<and> \<not> verbose"
  then show "smartstack_output gb nt nerve_ns unique_attributes service instance tasks expected_count verbose
        = Inr [[Raw (''Smartstack: N/A - '' @ instance @ '' is announced in the ''),
                paint Bold nerve_ns, Raw '' namespace.'']]"
    by (simp add: smartstack_output_def)
next
  assume "unique_attributes = [] \<and> instance \<noteq> nerve_ns \<and> verbose"
  then show "smartstack_output gb nt nerve_ns unique_attributes service instance tasks expected_count verbose
        = Inr [[Raw (''Smartstack: N/A - '' @ instance @ '' is announced in the ''),
                paint Bold nerve_ns, Raw '' namespace.''],
               [Raw (''Smartstack: ERROR - '' @ compose_job_id service nerve_ns
                     @ '' is NOT in smartstack at all!'')]]"
    by (simp add: smartstack_output_def)
next
  assume "unique_attributes = [] \<and> instance = nerve_ns"
  then show "smartstack_output gb nt nerve_ns unique_attributes service instance tasks expected_count verbose
        = Inr [[Raw (''Smartstack: ERROR - '' @ compose_job_id service nerve_ns
                     @ '' is NOT in smartstack at all!'')]]"
    by (simp add: smartstack_output_def)
next
  assume "unique_attributes = [] \<and> instance = nerve_ns"
  then show "status_smartstack_backends gb nt nerve_ns unique_attributes service instance tasks
           expected_count verbose
        = Inr [Raw (''Smartstack: ERROR - '' @ compose_job_id service nerve_ns
                    @ '' is NOT in smartstack at all!'')]"
    by (simp add: smartstack_output_def status_smartstack_backends_def)
next
  assume a: "unique_attributes \<noteq> [] \<and> (\<forall>loc \<in> set unique_attributes. snd loc \<noteq> [])
        \<and> (instance = nerve_ns \<or> verbose)"
  then show "smartstack_output gb nt nerve_ns unique_attributes service instance tasks expected_count verbose
        = Inr ((if instance \<noteq> nerve_ns then
                  [[Raw (''Smartstack: N/A - '' @ instance @ '' is announced in the ''),
                    paint Bold nerve_ns, Raw '' namespace.'']]
                else [])
               @ [[Raw ''Smartstack:'']]
               @ (if verbose then
                    [[Raw (''  Haproxy Service Name: '' @ compose_job_id service nerve_ns)],
                     [Raw ''  Backends: Name                      LastCheck           LastChange      Status'']]
                  else [])
               @ concat
                   (map (\<lambda>loc. (Raw (''    '' @ fst loc @ '' - '')
                                 # haproxy_backend_report
                                     (expected_count div int (length unique_attributes))
                                     (location_up_count gb (compose_job_id service nerve_ns) tasks loc))
                                # (if verbose
                                   then location_detail nt gb (compose_job_id service nerve_ns)
                                          tasks loc
                                   else []))
                      (sort_key fst unique_attributes)))"
    using smartstack_output_locations [of unique_attributes "instance" nerve_ns verbose gb nt
        service tasks expected_count]
    by (simp add: location_line_def)
next
  assume a: "unique_attributes \<noteq> [] \<and> (\<forall>loc \<in> set unique_attributes. snd loc \<noteq> [])
        \<and> (instance = nerve_ns \<or> verbose)"
  have e: "[Raw (''Smartstack: ERROR - '' @ compose_job_id service nerve_ns
                 @ '' is NOT in smartstack at all!'')]
           \<notin> set (concat
                (map (\<lambda>loc. location_line gb (compose_job_id service nerve_ns) tasks
                                (expected_count div int (length unique_attributes)) loc
                             # (if verbose
                                then location_detail nt gb (compose_job_id service nerve_ns) tasks loc
                                else []))
                   (sort_key fst unique_attributes)))"
    by (rule error_line_not_in_locations)
  show "\<forall>out. smartstack_output gb nt nerve_ns unique_attributes service instance tasks
                  expected_count verbose = Inr out \<longrightarrow>
               [Raw (''Smartstack: ERROR - '' @ compose_job_id service nerve_ns
                     @ '' is NOT in smartstack at all!'')] \<notin> set out"
    using a e smartstack_output_locations [of unique_attributes "instance" nerve_ns verbose gb nt
        service tasks expected_count]
    by (auto simp del: set_concat)
next
  assume a: "unique_attributes \<noteq> []
        \<and> (\<forall>loc \<in> set unique_attributes.
              snd loc \<noteq> [] \<and> gb (compose_job_id service nerve_ns) (hd (snd loc)) = [])
        \<and> (instance = nerve_ns \<or> verbose)"
  have m: "concat
                (map (\<lambda>loc. location_line gb (compose_job_id service nerve_ns) tasks
                                (expected_count div int (length unique_attributes)) loc
                             # (if verbose
                                then location_detail nt gb (compose_job_id service nerve_ns) tasks loc
                                else []))
                   (sort_key fst unique_attributes))
           = map (\<lambda>loc. Raw (''    '' @ fst loc @ '' - '')
                         # haproxy_backend_report
                             (expected_count div int (length unique_attributes)) 0)
               (sort_key fst unique_attributes)"
  proof -
    have "\<forall>loc \<in> set (sort_key fst unique_attributes).
            gb (compose_job_id service nerve_ns) (hd (snd loc)) = []"
      using a by simp
    then have eq: "map (\<lambda>loc. location_line gb (compose_job_id service nerve_ns) tasks
                                (expected_count div int (length unique_attributes)) loc
                             # (if verbose
                                then location_detail nt gb (compose_job_id service nerve_ns) tasks loc
                                else []))
                   (sort_key fst unique_attributes)
               = map (\<lambda>loc. [Raw (''    '' @ fst loc @ '' - '')
                         # haproxy_backend_report
                             (expected_count div int (length unique_attributes)) 0])
               (sort_key fst unique_attributes)"
      by (intro map_cong) (simp_all add: location_line_def no_backends_up_count)
    show ?thesis
      unfolding eq by (rule concat_map_singleton)
  qed
  show "smartstack_output gb nt nerve_ns unique_attributes service instance tasks expected_count verbose
        = Inr ((if instance \<noteq> nerve_ns then
                  [[Raw (''Smartstack: N/A - '' @ instance @ '' is announced in the ''),
                    paint Bold nerve_ns, Raw '' namespace.'']]
                else [])
               @ [[Raw ''Smartstack:'']]
               @ (if verbose then
                    [[Raw (''  Haproxy Service Name: '' @ compose_job_id service nerve_ns)],
                     [Raw ''  Backends: Name                      LastCheck           LastChange      Status'']]
                  else [])
               @ map (\<lambda>loc. Raw (''    '' @ fst loc @ '' - '')
                             # haproxy_backend_report
                                 (expected_count div int (length unique_attributes)) 0)
                   (sort_key fst unique_attributes))"
    using a smartstack_output_locations [of unique_attributes "instance" nerve_ns verbose gb nt
        service tasks expected_count]
    by (simp only: m) simp
next
  assume a: "unique_attributes \<noteq> [] \<and> (\<exists>loc \<in> set unique_attributes. snd loc = [])
        \<and> (instance = nerve_ns \<or> verbose)"
  then show "smartstack_output gb nt nerve_ns unique_attributes service instance tasks expected_count verbose
        = Inl IndexError"
    using pretty_print_locations_no_host [of unique_attributes gb nt
        "compose_job_id service nerve_ns" tasks expected_count verbose]
    by (auto simp: smartstack_output_def Let_def)
qed

theorem smartstack_no_locations_witness:
  "status_smartstack_backends no_backends naturaltime_example ''main'' [] ''svc'' ''main'' [] 4 False
     = Inr [Raw ''Smartstack: ERROR - svc.main is NOT in smartstack at all!'']
   \<and> smartstack_output no_backends naturaltime_example ''main''
        [(''rack2'', [''host2'']), (''rack1'', [''host1''])] ''svc'' ''main'' [] 1 False
     = Inr [[Raw ''Smartstack:''],
            Raw ''    rack1 - '' # haproxy_backend_report 0 0,
            Raw ''    rack2 - '' # haproxy_backend_report 0 0]
   \<and> [Raw ''Smartstack: ERROR - svc.main is NOT in smartstack at all!'']
        \<notin> set [[Raw ''Smartstack:''],
                Raw ''    rack1 - '' # haproxy_backend_report 0 0,
                Raw ''    rack2 - '' # haproxy_backend_report 0 0]
   \<and> smartstack_output no_backends naturaltime_example ''canary'' [] ''svc'' ''main'' [] 4 False
     = Inr [[Raw ''Smartstack: N/A - main is announced in the '', paint Bold ''canary'',
             Raw '' namespace.'']]
   \<and> smartstack_output no_backends naturaltime_example ''canary'' [] ''svc'' ''main'' [] 4 True
     = Inr [[Raw ''Smartstack: N/A - main is announced in the '', paint Bold ''canary'',
             Raw '' namespace.''],
            [Raw ''Smartstack: ERROR - svc.canary is NOT in smartstack at all!'']]
   \<and> smartstack_output no_backends naturaltime_example ''main'' [(''rack1'', [])]
        ''svc'' ''main'' [] 4 False
     = Inl IndexError"
proof -
  note none = smartstack_no_locations
      [of "''main''" "''main''" False no_backends naturaltime_example "[]" "''svc''" "[]" 4]
  note two = smartstack_no_locations
      [of "''main''" "''main''" False no_backends naturaltime_example
          "[(''rack2'', [''host2'']), (''rack1'', [''host1''])]" "''svc''" "[]" 1]
  note other = smartstack_no_locations
      [of "''main''" "''canary''" False no_backends naturaltime_example "[]" "''svc''" "[]" 4]
  note other_verbose = smartstack_no_locations
      [of "''main''" "''canary''" True no_backends naturaltime_example "[]" "''svc''" "[]" 4]
  note no_host = smartstack_no_locations
      [of "''main''" "''main''" False no_backends naturaltime_example "[(''rack1'', [])]"
          "''svc''" "[]" 4]
  have a: "status_smartstack_backends no_backends naturaltime_example ''main'' [] ''svc'' ''main''
             [] 4 False
           = Inr [Raw ''Smartstack: ERROR - svc.main is NOT in smartstack at all!'']"
    using none [THEN conjunct2, THEN conjunct2, THEN conjunct1]
    by (simp add: compose_job_id_def)
  have b: "smartstack_output no_backends naturaltime_example ''main''
             [(''rack2'', [''host2'']), (''rack1'', [''host1''])] ''svc'' ''main'' [] 1 False
           = Inr [[Raw ''Smartstack:''],
                  Raw ''    rack1 - '' # haproxy_backend_report 0 0,
                  Raw ''    rack2 - '' # haproxy_backend_report 0 0]"
    using two [THEN conjunct2, THEN conjunct2, THEN conjunct2, THEN conjunct2, THEN conjunct1]
    by (simp add: no_backends_def)
  have c: "[Raw ''Smartstack: ERROR - svc.main is NOT in smartstack at all!'']
        \<notin> set [[Raw ''Smartstack:''],
                Raw ''    rack1 - '' # haproxy_backend_report 0 0,
                Raw ''    rack2 - '' # haproxy_backend_report 0 0]"
    using b two [THEN conjunct2, THEN conjunct2, THEN conjunct2, THEN conjunct1]
    by (simp add: compose_job_id_def)
  have d: "smartstack_output no_backends naturaltime_example ''canary'' [] ''svc'' ''main'' [] 4
             False
           = Inr [[Raw ''Smartstack: N/A - main is announced in the '', paint Bold ''canary'',
                   Raw '' namespace.'']]"
    using other [THEN conjunct1] by simp
  have e: "smartstack_output no_backends naturaltime_example ''canary'' [] ''svc'' ''main'' [] 4
             True
           = Inr [[Raw ''Smartstack: N/A - main is announced in the '', paint Bold ''canary'',
                   Raw '' namespace.''],
                  [Raw ''Smartstack: ERROR - svc.canary is NOT in smartstack at all!'']]"
    using other_verbose [THEN conjunct2, THEN conjunct1] by (simp add: compose_job_id_def)
  have f: "smartstack_output no_backends naturaltime_example ''main'' [(''rack1'', [])]
             ''svc'' ''main'' [] 4 False
           = Inl IndexError"
    using no_host [THEN conjunct2, THEN conjunct2, THEN conjunct2, THEN conjunct2, THEN conjunct2]
    by simp
  show ?thesis
    using a b c d e f by (simp only: simp_thms)
qed

subsection \<open>Command dispatch and exit codes\<close>

lemma status_command_outcome:
  "fst (status_command w service instance cluster verbose app_id s)
     = (if reports_return w service instance verbose then Returned 0
        else fst (status_command w service instance cluster verbose app_id s))
   \<and> (\<not> reports_return w service instance verbose \<longrightarrow>
        (\<exists>e. fst (status_command w service instance cluster verbose app_id s) = Raised e))"
  by (auto simp: status_command_def reports_return_def Let_def
      split: sum.splits prod.splits option.splits)

lemma rows_returns:
  "\<forall>x \<in> set xs. \<exists>l. f x = Inr l \<Longrightarrow> \<exists>ls. rows f xs = Inr ls"
proof (induction xs)
  case Nil
  show ?case by simp
next
  case (Cons x xs)
  obtain l where l: "f x = Inr l"
    using Cons.prems by auto
  obtain ls where ls: "rows f xs = Inr ls"
    using Cons by auto
  show ?case
    using l ls by simp
qed

lemma marathon_task_line_returns:
  "mt_host t = None \<or> mt_ports t \<noteq> [] \<Longrightarrow> \<exists>l. marathon_task_line sm nt t = Inr l"
  by (cases "mt_host t"; cases "mt_ports t") (auto simp: marathon_task_line_def Let_def)

lemma get_verbose_status_returns:
  assumes "\<forall>t \<in> set (app_tasks app). mt_host t = None \<or> mt_ports t \<noteq> []"
  shows "\<exists>out. get_verbose_status_of_marathon_app sd sm nt app = Inr (app_tasks app, out)"
proof -
  obtain ls where "rows (marathon_task_line sm nt) (app_tasks app) = Inr ls"
    using assms rows_returns [of "app_tasks app" "marathon_task_line sm nt"]
      marathon_task_line_returns by blast
  then show ?thesis
    by (simp add: get_verbose_status_of_marathon_app_def Let_def)
qed

lemma marathon_apps_loop_returns:
  assumes "\<forall>appid \<in> set appids. \<forall>t \<in> set (app_tasks (get_app appid)).
             mt_host t = None \<or> mt_ports t \<noteq> []"
  shows "\<exists>outs. marathon_apps_loop (get_verbose_status_of_marathon_app sd sm nt) get_app appids
           = Inr (concat (map (\<lambda>appid. app_tasks (get_app appid)) appids), outs)"
  using assms
proof (induction appids)
  case Nil
  show ?case by simp
next
  case (Cons a appids)
  obtain out where o: "get_verbose_status_of_marathon_app sd sm nt (get_app a)
                        = Inr (app_tasks (get_app a), out)"
    using Cons.prems get_verbose_status_returns [of "get_app a" sd sm nt] by auto
  obtain outs where os:
    "marathon_apps_loop (get_verbose_status_of_marathon_app sd sm nt) get_app appids
       = Inr (concat (map (\<lambda>appid. app_tasks (get_app appid)) appids), outs)"
    using Cons by auto
  show ?case
    using o os by simp
qed

lemma status_marathon_job_verbose_returns:
  assumes "\<forall>appid \<in> set appids. \<forall>t \<in> set (app_tasks (get_app appid)).
             mt_host t = None \<or> mt_ports t \<noteq> []"
  shows "\<exists>out. status_marathon_job_verbose sd sm nt get_app appids
           = Inr (concat (map (\<lambda>appid. app_tasks (get_app appid)) appids), out)"
proof -
  obtain outs where
    "marathon_apps_loop (get_verbose_status_of_marathon_app sd sm nt) get_app appids
       = Inr (concat (map (\<lambda>appid. app_tasks (get_app appid)) appids), outs)"
    using marathon_apps_loop_returns [OF assms] by blast
  then show ?thesis
    by (simp add: status_marathon_job_verbose_def)
qed

lemma smartstack_returns:
  assumes "\<forall>loc \<in> set unique_attributes. snd loc \<noteq> []"
  shows "\<exists>t. status_smartstack_backends gb nt nerve_ns unique_attributes service instance tasks
               expected_count verbose = Inr t"
proof (cases "unique_attributes = []")
  case True
  then show ?thesis
    by (simp add: status_smartstack_backends_def smartstack_output_def Let_def)
next
  case False
  obtain ls where
    "pretty_print_smartstack_backends_for_locations gb nt (compose_job_id service nerve_ns) tasks
       unique_attributes expected_count verbose = Inr ls"
    using pretty_print_locations_eq [OF False assms] by blast
  then show ?thesis
    using False
    by (simp add: status_smartstack_backends_def smartstack_output_def Let_def)
qed

lemma reports_return_quiet:
  assumes "\<forall>appid \<in> set (w_get_matching_appids w). \<forall>t \<in> set (app_tasks (w_get_app w appid)).
             mt_host t = None \<or> mt_ports t \<noteq> []"
    and "\<forall>loc \<in> set (w_get_mesos_slaves_grouped_by_attribute w). snd loc \<noteq> []"
  shows "reports_return w service instance False"
proof -
  obtain out where m:
    "status_marathon_job_verbose (w_str_datetime w) (w_strftime_minute w) (w_naturaltime w)
       (w_get_app w) (w_get_matching_appids w)
     = Inr (concat (map (\<lambda>appid. app_tasks (w_get_app w appid)) (w_get_matching_appids w)), out)"
    using status_marathon_job_verbose_returns [OF assms(1)] by blast
  obtain t where t:
    "status_smartstack_backends (w_get_backends w) (w_naturaltime_delta w)
       (w_read_namespace_for_service_instance w) (w_get_mesos_slaves_grouped_by_attribute w)
       service instance
       (concat (map (\<lambda>appid. app_tasks (w_get_app w appid)) (w_get_matching_appids w)))
       (w_get_expected_instance_count_for_namespace w) False = Inr t"
    using smartstack_returns [OF assms(2)] by blast
  show ?thesis
    using m t by (simp add: reports_return_def split: option.splits)
qed

text \<open>
  C8 (counterexample). The image is resolved and the command is \<^verbatim>\<open>status\<close>, but a Marathon task
  of the matching app has a host and no port: \<^verbatim>\<open>task.ports[0]\<close> in
  \<^verbatim>\<open>get_verbose_status_of_marathon_app\<close> raises \<^verbatim>\<open>IndexError\<close>, nothing takes it, and
  \<^verbatim>\<open>perform_command\<close> raises instead of returning 0.
\<close>

theorem perform_command_counterexample:
  "fst (perform_command
          (world_example (Inr ''svc.main.git1.config1'')
             [\<lparr>mt_id = ''svc.main.git1.config1.t1'', mt_host = Some ''host1.example.com'',
               mt_ports = [], mt_staged_at = 0\<rparr>])
          client_example ''status'' ''svc'' ''main'' ''norcal'' False \<lparr>events = [], stdout = []\<rparr>)
     = Raised IndexError"
  by (simp add: perform_command_def status_command_def world_example_def
      status_marathon_job_verbose_def get_verbose_status_of_marathon_app_def
      marathon_task_line_def Let_def)

text \<open>
  C8 (amended). \<^verbatim>\<open>perform_command\<close> returns 1 exactly when resolving the configuration raised
  \<^verbatim>\<open>NoDockerImageError\<close>, and then it has printed one line that names service.instance and
  asks whether Jenkins has deployed it. With the image resolved it returns 0 for \<^verbatim>\<open>start\<close>,
  \<^verbatim>\<open>stop\<close> and \<^verbatim>\<open>restart\<close>, and for \<^verbatim>\<open>status\<close> when its reports return; when a report raises,
  \<^verbatim>\<open>perform_command\<close> raises. For any other command name it raises \<^verbatim>\<open>NotImplementedError\<close>
  and changes nothing.
\<close>

theorem perform_command_exit_codes:
  "(w_create_complete_config_id w = Inl NoDockerImageError \<longrightarrow>
      perform_command w client command service instance cluster verbose s
        = (Returned 1,
           print_line
             [Raw (''Docker image for '' @ compose_job_id service instance
                   @ '' not in deployments.json. Exiting. Has Jenkins deployed it?'')] s))
   \<and> (fst (perform_command w client command service instance cluster verbose s) = Returned 1)
       = (w_create_complete_config_id w = Inl NoDockerImageError)
   \<and> (w_create_complete_config_id w = Inr app_id
        \<and> (command = ''start'' \<or> command = ''stop'' \<or> command = ''restart'') \<longrightarrow>
      fst (perform_command w client command service instance cluster verbose s) = Returned 0)
   \<and> (w_create_complete_config_id w = Inr app_id \<and> command = ''status''
        \<and> reports_return w service instance verbose \<longrightarrow>
      fst (perform_command w client command service instance cluster verbose s) = Returned 0)
   \<and> (w_create_complete_config_id w = Inr app_id \<and> command = ''status'' \<and> \<not> verbose
        \<and> (\<forall>appid \<in> set (w_get_matching_appids w). \<forall>t \<in> set (app_tasks (w_get_app w appid)).
              mt_host t = None \<or> mt_ports t \<noteq> [])
        \<and> (\<forall>loc \<in> set (w_get_mesos_slaves_grouped_by_attribute w). snd loc \<noteq> []) \<longrightarrow>
      fst (perform_command w client command service instance cluster verbose s) = Returned 0)
   \<and> (w_create_complete_config_id w = Inr app_id \<and> command = ''status''
        \<and> \<not> reports_return w service instance verbose \<longrightarrow>
      (\<exists>e. fst (perform_command w client command service instance cluster verbose s) = Raised e))
   \<and> (w_create_complete_config_id w = Inr app_id
        \<and> command \<noteq> ''start'' \<and> command \<noteq> ''stop'' \<and> command \<noteq> ''restart''
        \<and> command \<noteq> ''status'' \<longrightarrow>
      perform_command w client command service instance cluster verbose s
        = (Raised (NotImplementedError (''Command '' @ command @ '' is not implemented!'')), s))"
proof (intro conjI impI)
  assume "w_create_complete_config_id w = Inl NoDockerImageError"
  then show "perform_command w client command service instance cluster verbose s
        = (Returned 1,
           print_line
             [Raw (''Docker image for '' @ compose_job_id service instance
                   @ '' not in deployments.json. Exiting. Has Jenkins deployed it?'')] s)"
    by (simp add: perform_command_def)
next
  show "(fst (perform_command w client command service instance cluster verbose s) = Returned 1)
       = (w_create_complete_config_id w = Inl NoDockerImageError)"
  proof (cases "w_create_complete_config_id w")
    case (Inl e)
    then show ?thesis
      by (simp add: perform_command_def)
  next
    case (Inr a)
    have "fst (status_command w service instance cluster verbose a s) \<noteq> Returned 1"
      using status_command_outcome [of w service "instance" cluster verbose a s]
      by (cases "reports_return w service instance verbose") auto
    then show ?thesis
      using Inr by (auto simp: perform_command_def Let_def)
  qed
next
  assume "w_create_complete_config_id w = Inr app_id
        \<and> (command = ''start'' \<or> command = ''stop'' \<or> command = ''restart'')"
  then show "fst (perform_command w client command service instance cluster verbose s) = Returned 0"
    by (auto simp: perform_command_def)
next
  assume "w_create_complete_config_id w = Inr app_id \<and> command = ''status''
        \<and> reports_return w service instance verbose"
  then show "fst (perform_command w client command service instance cluster verbose s) = Returned 0"
    using status_command_outcome [of w service "instance" cluster verbose app_id s]
    by (simp add: perform_command_def)
next
  assume a: "w_create_complete_config_id w = Inr app_id \<and> command = ''status'' \<and> \<not> verbose
        \<and> (\<forall>appid \<in> set (w_get_matching_appids w). \<forall>t \<in> set (app_tasks (w_get_app w appid)).
              mt_host t = None \<or> mt_ports t \<noteq> [])
        \<and> (\<forall>loc \<in> set (w_get_mesos_slaves_grouped_by_attribute w). snd loc \<noteq> [])"
  then have "reports_return w service instance False"
    by (intro reports_return_quiet) simp_all
  then show "fst (perform_command w client command service instance cluster verbose s) = Returned 0"
    using a status_command_outcome [of w service "instance" cluster False app_id s]
    by (simp add: perform_command_def)
next
  assume "w_create_complete_config_id w = Inr app_id \<and> command = ''status''
        \<and> \<not> reports_return w service instance verbose"
  then show "\<exists>e. fst (perform_command w client command service instance cluster verbose s) = Raised e"
    using status_command_outcome [of w service "instance" cluster verbose app_id s]
    by (simp add: perform_command_def)
next
  assume "w_create_complete_config_id w = Inr app_id
        \<and> command \<noteq> ''start'' \<and> command \<noteq> ''stop'' \<and> command \<noteq> ''restart''
        \<and> command \<noteq> ''status''"
  then show "perform_command w client command service instance cluster verbose s
        = (Raised (NotImplementedError (''Command '' @ command @ '' is not implemented!'')), s)"
    by (simp add: perform_command_def)
qed

lemma example_reports_return:
  "reports_return
     (world_example (Inr ''svc.main.git1.config1'')
        [marathon_task_at ''svc.main.git1.config1.t1'' ''host1.example.com'' 31015])
     ''svc'' ''main'' False"
  by (simp add: reports_return_def world_example_def status_marathon_job_verbose_def
      get_verbose_status_of_marathon_app_def marathon_task_line_def marathon_task_at_def
      status_smartstack_backends_def smartstack_output_def no_backends_def Let_def)

lemma world_example_cfg: "w_create_complete_config_id (world_example cfg ts) = cfg"
  by (simp add: world_example_def)

theorem perform_command_exit_codes_witness:
  "perform_command (world_example (Inl NoDockerImageError) []) client_example
       ''status'' ''svc'' ''main'' ''norcal'' False \<lparr>events = [], stdout = []\<rparr>
     = (Returned 1,
        \<lparr>events = [],
         stdout = [[Raw ''Docker image for svc.main not in deployments.json. Exiting. Has Jenkins deployed it?'']]\<rparr>)
   \<and> fst (perform_command
            (world_example (Inr ''svc.main.git1.config1'')
               [marathon_task_at ''svc.main.git1.config1.t1'' ''host1.example.com'' 31015])
            client_example ''restart'' ''svc'' ''main'' ''norcal'' False \<lparr>events = [], stdout = []\<rparr>)
     = Returned 0
   \<and> fst (perform_command
            (world_example (Inr ''svc.main.git1.config1'')
               [marathon_task_at ''svc.main.git1.config1.t1'' ''host1.example.com'' 31015])
            client_example ''status'' ''svc'' ''main'' ''norcal'' False \<lparr>events = [], stdout = []\<rparr>)
     = Returned 0
   \<and> perform_command
        (world_example (Inr ''svc.main.git1.config1'')
           [marathon_task_at ''svc.main.git1.config1.t1'' ''host1.example.com'' 31015])
        client_example ''bogus'' ''svc'' ''main'' ''norcal'' False \<lparr>events = [], stdout = []\<rparr>
     = (Raised (NotImplementedError ''Command bogus is not implemented!''),
        \<lparr>events = [], stdout = []\<rparr>)"
  using
    perform_command_exit_codes
      [of "world_example (Inl NoDockerImageError) []" client_example "''status''" "''svc''"
          "''main''" "''norcal''" False "\<lparr>events = [], stdout = []\<rparr>" "''x''"]
    perform_command_exit_codes
      [of "world_example (Inr ''svc.main.git1.config1'')
             [marathon_task_at ''svc.main.git1.config1.t1'' ''host1.example.com'' 31015]"
          client_example "''restart''" "''svc''" "''main''" "''norcal''" False
          "\<lparr>events = [], stdout = []\<rparr>" "''svc.main.git1.config1''"]
    perform_command_exit_codes
      [of "world_example (Inr ''svc.main.git1.config1'')
             [marathon_task_at ''svc.main.git1.config1.t1'' ''host1.example.com'' 31015]"
          client_example "''status''" "''svc''" "''main''" "''norcal''" False
          "\<lparr>events = [], stdout = []\<rparr>" "''svc.main.git1.config1''"]
    perform_command_exit_codes
      [of "world_example (Inr ''svc.main.git1.config1'')
             [marathon_task_at ''svc.main.git1.config1.t1'' ''host1.example.com'' 31015]"
          client_example "''bogus''" "''svc''" "''main''" "''norcal''" False
          "\<lparr>events = [], stdout = []\<rparr>" "''svc.main.git1.config1''"]
    example_reports_return
  by (simp add: world_example_cfg print_line_def compose_job_id_def)

end
